theory Spec2Isabelle
  imports Main "HOL-Library.Sublist"
begin

section \<open>Stripe payment-failure monitor: the webhook pipeline of \<open>src/index.js\<close>\<close>

text \<open>
  The program is one Node.js file: an in-memory activity log (\<open>addLog\<close>), a renderer of
  notification mails (\<open>formatFailureEmail\<close>), a sender (\<open>sendEmail\<close>) and the handler of
  \<open>POST /webhook\<close>. The embedding below follows the file function by function.

  Modelling decisions, all of them visible in the definitions:
  \<^item> A parsed JSON body is a \<open>js_value\<close>. \<open>JUndefined\<close> is what reading an absent property
    yields. Numbers are integers (Stripe amounts, counters and unix times are); they stand
    for doubles that hold an integer of magnitude below \<open>2 ^ 52\<close>.
  \<^item> Strings are lists of bytes (UTF-8). The program only concatenates them, except for
    \<open>toUpperCase\<close>: on a string of ASCII characters it is computed here, on any other
    string it is the engine's case mapping, a field of \<open>env\<close>.
  \<^item> A thrown exception is a value of \<open>js_error\<close>; a computation that may throw returns
    \<open>js_error + 'a\<close>, with \<open>Inl\<close> the exception.
  \<^item> What the runtime or the outside world decides is a field of the record \<open>env\<close>: the
    clock, the locale's date format, the parsing of strings into numbers, the text of the
    engine's own error messages, the base64url encoder and the outcome of each call of the
    Gmail API. Every theorem holds for every \<open>env\<close>.
  \<^item> The module-level array \<open>logs\<close> is a field of the explicit \<open>state\<close>, together with
    the number of entries written so far, which indexes the clock, and the number of calls of
    the Gmail API made so far. One request is handled from start to end; interleaving with
    other requests at the \<open>await\<close> is not modelled. The line \<open>console.log\<close> of
    \<open>addLog\<close> only prints and is left out.
  \<^item> The routes that only read (\<open>GET /\<close>, \<open>/health\<close>, \<open>/logs\<close>) appear as the views of
    the log they return; \<open>POST /test\<close> is not part of the development.
\<close>

subsection \<open>JSON values and the coercions the program relies on\<close>

datatype js_value =
    JUndefined
  | JNull
  | JBool bool
  | JNum int
  | JStr string
  | JArr "js_value list"
  | JObj "(string \<times> js_value) list"

text \<open>The result of \<open>ToNumber\<close>, within the integers and \<open>NaN\<close>.\<close>

datatype js_number = NaN | Finite int

text \<open>
  The exceptions that can arise: the four kinds of \<open>TypeError\<close> the program can provoke,
  and the rejection of the Gmail call, which carries the message of the error it rejected
  with.
\<close>

datatype js_error =
    ReadOfNullish js_value string
  | DestructureOfNullish js_value
  | NotAFunction string
  | NotPrimitive
  | Rejected string

record env =
  now :: "nat \<Rightarrow> string"
  locale_string :: "int \<Rightarrow> string"
  string_to_number :: "string \<Rightarrow> js_number"
  error_text :: "js_error \<Rightarrow> string"
  unicode_upper :: "string \<Rightarrow> string"
  encode :: "string \<Rightarrow> string"
  gmail_send :: "nat \<Rightarrow> string \<Rightarrow> string option"

text \<open>
  \<open>now env k\<close> is \<open>new Date().toISOString()\<close> when entry number \<open>k\<close> is written;
  \<open>locale_string env ms\<close> is \<open>toLocaleString()\<close> of a valid date of time value \<open>ms\<close>;
  \<open>string_to_number\<close> is the engine's StringToNumber, on the strings that denote an
  integer or no number at all; \<open>error_text env e\<close> is the \<open>message\<close> the engine gives a
  \<open>TypeError\<close>; \<open>unicode_upper\<close> is \<open>String.prototype.toUpperCase\<close> on the strings
  that hold a character outside ASCII; \<open>encode\<close> is the base64url encoding of line 41;
  \<open>gmail_send env k raw\<close> is the outcome of the call of \<open>gmail.users.messages.send\<close>
  made after \<open>k\<close> earlier ones: \<open>None\<close> when the promise resolves, \<open>Some d\<close> when it
  rejects with an error of message \<open>d\<close>. The promise is taken to settle.
\<close>

definition bind_result :: "'e + 'a \<Rightarrow> ('a \<Rightarrow> 'e + 'b) \<Rightarrow> 'e + 'b" where
  "bind_result m f = (case m of Inl e \<Rightarrow> Inl e | Inr v \<Rightarrow> f v)"

definition message_of :: "env \<Rightarrow> js_error \<Rightarrow> string" where
  "message_of env e = (case e of Rejected d \<Rightarrow> d | _ \<Rightarrow> error_text env e)"

text \<open>
  The decimal digits of a non-negative integer, and Number::toString on an integer.
\<close>

definition digit_char :: "int \<Rightarrow> char" where
  "digit_char d = char_of (48 + d)"

function show_digits :: "int \<Rightarrow> string" where
  "show_digits n =
     (if n < 10 then [digit_char n] else show_digits (n div 10) @ [digit_char (n mod 10)])"
  by pat_completeness auto
termination
  by (relation "measure nat") auto

declare show_digits.simps [simp del]

definition show_int :: "int \<Rightarrow> string" where
  "show_int i = (if i < 0 then ''-'' @ show_digits (- i) else show_digits i)"

text \<open>
  Reading a property \<open>v.p\<close>, for the property names the program reads (none of them is
  defined on a prototype): a \<open>TypeError\<close> on \<open>undefined\<close> and \<open>null\<close>, the own property
  of an object, \<open>undefined\<close> everywhere else. An object is the list of its own properties.
\<close>

fun get_prop :: "js_value \<Rightarrow> string \<Rightarrow> js_error + js_value" where
  "get_prop JUndefined p = Inl (ReadOfNullish JUndefined p)"
| "get_prop JNull p = Inl (ReadOfNullish JNull p)"
| "get_prop (JObj ps) p = Inr (case map_of ps p of None \<Rightarrow> JUndefined | Some v \<Rightarrow> v)"
| "get_prop v p = Inr JUndefined"

text \<open>
  \<open>ToString\<close>, as a template literal applies it. An array is joined with commas, its
  \<open>undefined\<close> and \<open>null\<close> elements as empty strings. An object prints as
  \<open>[object Object]\<close> unless it has an own property \<open>toString\<close>: that property, being JSON,
  is not callable, \<open>valueOf\<close> returns the object itself, and the conversion throws.
\<close>

fun to_string :: "js_value \<Rightarrow> js_error + string"
  and join_elems :: "js_value list \<Rightarrow> js_error + string" where
  "to_string JUndefined = Inr ''undefined''"
| "to_string JNull = Inr ''null''"
| "to_string (JBool b) = Inr (if b then ''true'' else ''false'')"
| "to_string (JNum n) = Inr (show_int n)"
| "to_string (JStr s) = Inr s"
| "to_string (JArr xs) = join_elems xs"
| "to_string (JObj ps) =
     (if ''toString'' \<in> fst ` set ps then Inl NotPrimitive else Inr ''[object Object]'')"
| "join_elems [] = Inr []"
| "join_elems [x] = (if x = JUndefined \<or> x = JNull then Inr [] else to_string x)"
| "join_elems (x # y # ys) =
     bind_result (if x = JUndefined \<or> x = JNull then Inr [] else to_string x)
       (\<lambda>a. bind_result (join_elems (y # ys)) (\<lambda>b. Inr (a @ '','' @ b)))"

text \<open>
  \<open>ToNumber\<close>, as \<open>/\<close> and \<open>*\<close> apply it: arrays and objects go through their string.
\<close>

fun to_number :: "env \<Rightarrow> js_value \<Rightarrow> js_error + js_number" where
  "to_number env JUndefined = Inr NaN"
| "to_number env JNull = Inr (Finite 0)"
| "to_number env (JBool b) = Inr (Finite (if b then 1 else 0))"
| "to_number env (JNum n) = Inr (Finite n)"
| "to_number env (JStr s) = Inr (string_to_number env s)"
| "to_number env v = bind_result (to_string v) (\<lambda>s. Inr (string_to_number env s))"

text \<open>Truthiness, as \<open>||\<close> and \<open>? :\<close> test it.\<close>

fun to_boolean :: "js_value \<Rightarrow> bool" where
  "to_boolean JUndefined = False"
| "to_boolean JNull = False"
| "to_boolean (JBool b) = b"
| "to_boolean (JNum n) = (n \<noteq> 0)"
| "to_boolean (JStr s) = (s \<noteq> [])"
| "to_boolean v = True"

definition js_or :: "js_value \<Rightarrow> js_value \<Rightarrow> js_value" where
  "js_or a b = (if to_boolean a then a else b)"

text \<open>\<open>(x / 100).toFixed(2)\<close>: the hundredths become the two fraction digits.\<close>

definition div100_toFixed2 :: "js_number \<Rightarrow> string" where
  "div100_toFixed2 x =
     (case x of
        NaN \<Rightarrow> ''NaN''
      | Finite n \<Rightarrow>
          (if n < 0 then ''-'' else []) @ show_digits (\<bar>n\<bar> div 100) @ ''.'' @
          [digit_char (\<bar>n\<bar> mod 100 div 10), digit_char (\<bar>n\<bar> mod 10)])"

text \<open>
  \<open>new Date(x * 1000).toLocaleString()\<close>: a time value beyond 8.64e15 milliseconds, or
  \<open>NaN\<close>, is an invalid date.
\<close>

definition times1000 :: "js_number \<Rightarrow> js_number" where
  "times1000 x = (case x of NaN \<Rightarrow> NaN | Finite n \<Rightarrow> Finite (n * 1000))"

definition date_toLocaleString :: "env \<Rightarrow> js_number \<Rightarrow> string" where
  "date_toLocaleString env t =
     (case t of
        NaN \<Rightarrow> ''Invalid Date''
      | Finite ms \<Rightarrow>
          if \<bar>ms\<bar> > 8640000000000000 then ''Invalid Date'' else locale_string env ms)"

text \<open>
  \<open>s.toUpperCase()\<close>: on ASCII the letters \<open>a\<close> to \<open>z\<close> move to \<open>A\<close> to \<open>Z\<close> and
  nothing else changes; a string with a byte of 128 or more is left to the engine. Then the
  method call on any value: only a string has the method.
\<close>

definition upper_char :: "char \<Rightarrow> char" where
  "upper_char c =
     (let n = (of_char c :: int) in if 97 \<le> n \<and> n \<le> 122 then char_of (n - 32) else c)"

definition is_ascii :: "string \<Rightarrow> bool" where
  "is_ascii s = list_all (\<lambda>ch. (of_char ch :: int) < 128) s"

definition toUpperCase :: "env \<Rightarrow> string \<Rightarrow> string" where
  "toUpperCase env s = (if is_ascii s then map upper_char s else unicode_upper env s)"

fun call_toUpperCase :: "env \<Rightarrow> js_value \<Rightarrow> js_error + string" where
  "call_toUpperCase env (JStr s) = Inr (toUpperCase env s)"
| "call_toUpperCase env JUndefined = Inl (ReadOfNullish JUndefined ''toUpperCase'')"
| "call_toUpperCase env JNull = Inl (ReadOfNullish JNull ''toUpperCase'')"
| "call_toUpperCase env v = Inl (NotAFunction ''toUpperCase'')"

subsection \<open>The activity log (lines 9 to 14)\<close>

record log_entry =
  timestamp :: string
  message :: string

record state =
  logs :: "log_entry list"
  clock :: nat
  attempts :: nat

definition addLog :: "env \<Rightarrow> string \<Rightarrow> state \<Rightarrow> state" where
  "addLog env msg st =
     (let pushed = logs st @ [\<lparr>timestamp = now env (clock st), message = msg\<rparr>];
          kept = (if length pushed > 100 then tl pushed else pushed)
      in st\<lparr>logs := kept, clock := Suc (clock st)\<rparr>)"

text \<open>\<open>xs.slice(start)\<close>, and the two read-only views of the log (lines 127, 133, 134).\<close>

definition slice_from :: "int \<Rightarrow> 'a list \<Rightarrow> 'a list" where
  "slice_from start xs =
     (if start < 0 then drop (nat (max (int (length xs) + start) 0)) xs
      else drop (nat start) xs)"

definition logs_count :: "state \<Rightarrow> nat" where
  "logs_count st = length (logs st)"

definition logs_endpoint :: "state \<Rightarrow> log_entry list \<times> nat" where
  "logs_endpoint st = (slice_from (- 20) (logs st), length (logs st))"

text \<open>
  The view \<open>logs.slice(-n)\<close> of line 133 with the count as a parameter: the last \<open>n\<close>
  entries, oldest first. The source takes it at \<open>n = 20\<close>.
\<close>

definition recent :: "nat \<Rightarrow> state \<Rightarrow> log_entry list" where
  "recent n st = slice_from (- int n) (logs st)"

text \<open>A run of appends, in order.\<close>

definition appends :: "env \<Rightarrow> string list \<Rightarrow> state \<Rightarrow> state" where
  "appends env msgs st = foldl (\<lambda>s m. addLog env m s) st msgs"

definition empty_state :: state where
  "empty_state = \<lparr>logs = [], clock = 0, attempts = 0\<rparr>"

subsection \<open>Rendering (lines 58 to 103)\<close>

text \<open>
  The characters that a string literal cannot hold, the three emoji of the templates as
  their UTF-8 bytes, and the layout of a multi-line template literal: every line starts
  with a line feed and six blanks, and the closing backquote stands after a line feed and
  four blanks.
\<close>

definition nl :: string where
  "nl = [CHR 0x0A]"

definition dq :: string where
  "dq = [CHR 0x22]"

definition emoji_card :: string where
  "emoji_card = [CHR 0xF0, CHR 0x9F, CHR 0x92, CHR 0xB3]"

definition emoji_siren :: string where
  "emoji_siren = [CHR 0xF0, CHR 0x9F, CHR 0x9A, CHR 0xA8]"

definition emoji_clipboard :: string where
  "emoji_clipboard = [CHR 0xF0, CHR 0x9F, CHR 0x93, CHR 0x8B]"

definition indent_line :: "string \<Rightarrow> string" where
  "indent_line s = nl @ ''      '' @ s"

definition template :: "string list \<Rightarrow> string" where
  "template ls = concat (map indent_line ls) @ nl @ ''    ''"

definition charge_subject :: "string \<Rightarrow> string \<Rightarrow> string" where
  "charge_subject amount currency =
     emoji_card @ '' Payment Failure Alert - $'' @ amount @ '' '' @ currency"

definition charge_body ::
  "string \<Rightarrow> string \<Rightarrow> string \<Rightarrow> string \<Rightarrow> string \<Rightarrow> string \<Rightarrow> string \<Rightarrow> string" where
  "charge_body amount currency customer code msg ident time =
     template
      [''<h2>'' @ emoji_siren @ '' Charge Failed</h2>'',
       ''<p><strong>Amount:</strong> $'' @ amount @ '' '' @ currency @ ''</p>'',
       ''<p><strong>Customer ID:</strong> '' @ customer @ ''</p>'',
       ''<p><strong>Failure Code:</strong> '' @ code @ ''</p>'',
       ''<p><strong>Failure Message:</strong> '' @ msg @ ''</p>'',
       ''<p><strong>Charge ID:</strong> '' @ ident @ ''</p>'',
       ''<p><strong>Time:</strong> '' @ time @ ''</p>'',
       [],
       ''<hr>'',
       ''<p><small>View in Stripe Dashboard: <a href='' @ dq @
         ''https://dashboard.stripe.com/payments/'' @ ident @ dq @
         ''>Open Charge</a></small></p>'']"

definition invoice_subject :: "string \<Rightarrow> string \<Rightarrow> string" where
  "invoice_subject amount currency =
     emoji_clipboard @ '' Subscription Payment Failure - $'' @ amount @ '' '' @ currency"

definition invoice_body ::
  "string \<Rightarrow> string \<Rightarrow> string \<Rightarrow> string \<Rightarrow> string \<Rightarrow> string \<Rightarrow> string \<Rightarrow> string \<Rightarrow> string" where
  "invoice_body amount currency customer number subscription attempt next_attempt ident =
     template
      [''<h2>'' @ emoji_siren @ '' Invoice Payment Failed</h2>'',
       ''<p><strong>Amount:</strong> $'' @ amount @ '' '' @ currency @ ''</p>'',
       ''<p><strong>Customer ID:</strong> '' @ customer @ ''</p>'',
       ''<p><strong>Invoice Number:</strong> '' @ number @ ''</p>'',
       ''<p><strong>Subscription ID:</strong> '' @ subscription @ ''</p>'',
       ''<p><strong>Attempt Count:</strong> '' @ attempt @ ''</p>'',
       ''<p><strong>Next Attempt:</strong> '' @ next_attempt @ ''</p>'',
       [],
       ''<hr>'',
       ''<p><small>View in Stripe Dashboard: <a href='' @ dq @
         ''https://dashboard.stripe.com/invoices/'' @ ident @ dq @
         ''>Open Invoice</a></small></p>'']"

text \<open>
  The branch for \<open>charge.failed\<close> (lines 63 to 80), in the order in which JavaScript
  evaluates it: each property read, each coercion and each interpolation may throw.
\<close>

definition render_charge :: "env \<Rightarrow> js_value \<Rightarrow> js_error + (js_value \<times> js_value)" where
  "render_charge env dat =
     bind_result (get_prop dat ''object'') (\<lambda>charge.
     bind_result (get_prop charge ''customer'') (\<lambda>customer.
     bind_result (get_prop charge ''amount'') (\<lambda>a.
     bind_result (to_number env a) (\<lambda>x.
     bind_result (get_prop charge ''currency'') (\<lambda>c.
     bind_result (call_toUpperCase env c) (\<lambda>currency.
     bind_result (to_string (js_or customer (JStr ''Guest''))) (\<lambda>customer_text.
     bind_result (get_prop charge ''failure_code'') (\<lambda>fc.
     bind_result (to_string (js_or fc (JStr ''Unknown''))) (\<lambda>code_text.
     bind_result (get_prop charge ''failure_message'') (\<lambda>fm.
     bind_result (to_string (js_or fm (JStr ''No details provided''))) (\<lambda>msg_text.
     bind_result (get_prop charge ''id'') (\<lambda>i.
     bind_result (to_string i) (\<lambda>id_text.
     bind_result (get_prop charge ''created'') (\<lambda>cr.
     bind_result (to_number env cr) (\<lambda>t.
       Inr (JStr (charge_subject (div100_toFixed2 x) currency),
            JStr (charge_body (div100_toFixed2 x) currency customer_text code_text msg_text
                    id_text (date_toLocaleString env (times1000 t)))))))))))))))))))"

text \<open>The branch for \<open>invoice.payment_failed\<close> (lines 82 to 99).\<close>

definition next_attempt_text :: "env \<Rightarrow> js_value \<Rightarrow> js_error + string" where
  "next_attempt_text env npa =
     (if to_boolean npa
      then bind_result (to_number env npa) (\<lambda>t. Inr (date_toLocaleString env (times1000 t)))
      else Inr ''No retry scheduled'')"

definition render_invoice :: "env \<Rightarrow> js_value \<Rightarrow> js_error + (js_value \<times> js_value)" where
  "render_invoice env dat =
     bind_result (get_prop dat ''object'') (\<lambda>invoice.
     bind_result (get_prop invoice ''customer'') (\<lambda>customer.
     bind_result (get_prop invoice ''amount_due'') (\<lambda>a.
     bind_result (to_number env a) (\<lambda>x.
     bind_result (get_prop invoice ''currency'') (\<lambda>c.
     bind_result (call_toUpperCase env c) (\<lambda>currency.
     bind_result (to_string customer) (\<lambda>customer_text.
     bind_result (get_prop invoice ''number'') (\<lambda>n.
     bind_result (to_string (js_or n (JStr ''Draft''))) (\<lambda>number_text.
     bind_result (get_prop invoice ''subscription'') (\<lambda>sub.
     bind_result (to_string (js_or sub (JStr ''N/A''))) (\<lambda>sub_text.
     bind_result (get_prop invoice ''attempt_count'') (\<lambda>ac.
     bind_result (to_string ac) (\<lambda>attempt_text.
     bind_result (get_prop invoice ''next_payment_attempt'') (\<lambda>npa.
     bind_result (next_attempt_text env npa) (\<lambda>next_text.
     bind_result (get_prop invoice ''id'') (\<lambda>i.
     bind_result (to_string i) (\<lambda>id_text.
       Inr (JStr (invoice_subject (div100_toFixed2 x) currency),
            JStr (invoice_body (div100_toFixed2 x) currency customer_text number_text sub_text
                    attempt_text next_text id_text)))))))))))))))))))"

text \<open>
  \<open>formatFailureEmail\<close>: the destructuring of line 59 throws on \<open>undefined\<close> and
  \<open>null\<close>; for a type other than the two, \<open>subject\<close> and \<open>body\<close> are never assigned
  and the function returns them as \<open>undefined\<close>.
\<close>

definition formatFailureEmail :: "env \<Rightarrow> js_value \<Rightarrow> js_error + (js_value \<times> js_value)" where
  "formatFailureEmail env event =
     (if event = JUndefined \<or> event = JNull then Inl (DestructureOfNullish event)
      else
        bind_result (get_prop event ''type'') (\<lambda>ty.
        bind_result (get_prop event ''data'') (\<lambda>dat.
          if ty = JStr ''charge.failed'' then render_charge env dat
          else if ty = JStr ''invoice.payment_failed'' then render_invoice env dat
          else Inr (JUndefined, JUndefined))))"

subsection \<open>Sending (lines 28 to 56)\<close>

text \<open>
  The mail is the five lines joined by line feeds; \<open>'Subject: ' + subject\<close> converts the
  subject to a string, and \<open>join\<close> takes an \<open>undefined\<close> or \<open>null\<close> body as the empty
  string. The OAuth client and the buffer are taken not to throw (the same \<open>catch\<close> would
  report it as it reports a rejection). Whatever is thrown inside the \<open>try\<close> is logged and
  thrown again.
\<close>

definition join_elem :: "js_value \<Rightarrow> js_error + string" where
  "join_elem x = (if x = JUndefined \<or> x = JNull then Inr [] else to_string x)"

definition mail_text :: "string \<Rightarrow> string \<Rightarrow> string" where
  "mail_text subject_text body_text =
     ''To: blakeecom02@gmail.com'' @ nl @ (''Subject: '' @ subject_text) @ nl @
     ''Content-Type: text/html; charset=utf-8'' @ nl @ [] @ nl @ body_text"

definition sendEmail :: "env \<Rightarrow> js_value \<Rightarrow> js_value \<Rightarrow> state \<Rightarrow> (js_error + bool) \<times> state" where
  "sendEmail env subject body st =
     (case bind_result (to_string subject) (\<lambda>s.
           bind_result (join_elem body) (\<lambda>b. Inr (mail_text s b))) of
        Inl e \<Rightarrow> (Inl e, addLog env (''Failed to send email: '' @ message_of env e) st)
      | Inr mail \<Rightarrow>
          (case gmail_send env (attempts st) (encode env mail) of
             None \<Rightarrow>
               (Inr True,
                addLog env ''Email sent successfully to blakeecom02@gmail.com''
                  (st\<lparr>attempts := Suc (attempts st)\<rparr>))
           | Some d \<Rightarrow>
               (Inl (Rejected d),
                addLog env (''Failed to send email: '' @ message_of env (Rejected d))
                  (st\<lparr>attempts := Suc (attempts st)\<rparr>))))"

subsection \<open>The handler of \<open>POST /webhook\<close> (lines 139 to 163)\<close>

record response =
  status :: nat
  json :: js_value

definition ok_response :: response where
  "ok_response = \<lparr>status = 200, json = JObj [(''received'', JBool True), (''processed'', JBool True)]\<rparr>"

definition error_response :: "string \<Rightarrow> response" where
  "error_response m = \<lparr>status = 500, json = JObj [(''error'', JStr m)]\<rparr>"

definition is_monitored :: "js_value \<Rightarrow> bool" where
  "is_monitored ty = (ty = JStr ''charge.failed'' \<or> ty = JStr ''invoice.payment_failed'')"

text \<open>The inner \<open>try\<close> block (lines 147 to 149).\<close>

definition notify_try :: "env \<Rightarrow> js_value \<Rightarrow> string \<Rightarrow> state \<Rightarrow> (js_error + unit) \<times> state" where
  "notify_try env event tname st =
     (case formatFailureEmail env event of
        Inl e \<Rightarrow> (Inl e, st)
      | Inr (subject, body) \<Rightarrow>
          (case sendEmail env subject body st of
             (Inl e, st') \<Rightarrow> (Inl e, st')
           | (Inr sent, st') \<Rightarrow>
               (Inr (), addLog env (''Payment failure notification sent for event: '' @ tname) st')))"

text \<open>
  The outer \<open>try\<close> block (lines 141 to 158). \<open>tname\<close> is the text of \<open>event.type\<close> in the
  template literals; the inner \<open>catch\<close> (lines 150 to 153) answers 500 with a fixed text.
\<close>

definition webhook_try :: "env \<Rightarrow> js_value \<Rightarrow> state \<Rightarrow> (js_error + response) \<times> state" where
  "webhook_try env event st =
     (case bind_result (get_prop event ''type'') (\<lambda>ty.
           bind_result (to_string ty) (\<lambda>tname. Inr (ty, tname))) of
        Inl e \<Rightarrow> (Inl e, st)
      | Inr (ty, tname) \<Rightarrow>
          (let st1 = addLog env (''Received webhook: '' @ tname) st in
           if is_monitored ty then
             (case notify_try env event tname st1 of
                (Inr u, st2) \<Rightarrow> (Inr ok_response, st2)
              | (Inl err, st2) \<Rightarrow>
                  (Inr (error_response ''Failed to send notification''),
                   addLog env
                     (''Failed to send notification for '' @ tname @ '': '' @ message_of env err)
                     st2))
           else (Inr ok_response, addLog env (''Ignored webhook event: '' @ tname) st1)))"

text \<open>The handler: the outer \<open>catch\<close> (lines 159 to 162) logs and answers 500.\<close>

definition handle :: "env \<Rightarrow> js_value \<Rightarrow> state \<Rightarrow> response \<times> state" where
  "handle env event st =
     (case webhook_try env event st of
        (Inr resp, st') \<Rightarrow> (resp, st')
      | (Inl err, st') \<Rightarrow>
          (error_response (message_of env err),
           addLog env (''Webhook error: '' @ message_of env err) st'))"

subsection \<open>Vocabulary of the properties\<close>

text \<open>The last \<open>n\<close> elements of a list, and the messages of the log in order.\<close>

definition last_n :: "nat \<Rightarrow> 'a list \<Rightarrow> 'a list" where
  "last_n n xs = drop (length xs - n) xs"

definition messages :: "state \<Rightarrow> string list" where
  "messages st = map message (logs st)"

text \<open>
  Total readings of a property, of a text and of a number, for stating what a rendered
  mail holds; whether a value converts to a string at all; and \<open>event.data.object\<close>.
\<close>

definition field :: "js_value \<Rightarrow> string \<Rightarrow> js_value" where
  "field v p = (case get_prop v p of Inr x \<Rightarrow> x | Inl e \<Rightarrow> JUndefined)"

definition stringable :: "js_value \<Rightarrow> bool" where
  "stringable v = (case to_string v of Inr s \<Rightarrow> True | Inl e \<Rightarrow> False)"

definition text_of :: "js_value \<Rightarrow> string" where
  "text_of v = (case to_string v of Inr s \<Rightarrow> s | Inl e \<Rightarrow> [])"

definition number_of :: "env \<Rightarrow> js_value \<Rightarrow> js_number" where
  "number_of env v = (case to_number env v of Inr x \<Rightarrow> x | Inl e \<Rightarrow> NaN)"

definition payload :: "js_value \<Rightarrow> js_error + js_value" where
  "payload ev = bind_result (get_prop ev ''data'') (\<lambda>dat. get_prop dat ''object'')"

text \<open>
  The properties of the payload that \<open>formatFailureEmail\<close> interpolates or computes with,
  besides \<open>currency\<close>, for each of the two types.
\<close>

definition charge_fields :: "string list" where
  "charge_fields =
     [''customer'', ''amount'', ''failure_code'', ''failure_message'', ''id'', ''created'']"

definition invoice_fields :: "string list" where
  "invoice_fields =
     [''customer'', ''amount_due'', ''number'', ''subscription'', ''attempt_count'',
      ''next_payment_attempt'', ''id'']"

definition fields_read :: "js_value \<Rightarrow> string list" where
  "fields_read ty = (if ty = JStr ''charge.failed'' then charge_fields else invoice_fields)"

text \<open>
  Upper case as a table: each of the 26 small letters has its capital, every other
  character stays.
\<close>

definition spec_uppercase :: "char \<Rightarrow> char" where
  "spec_uppercase ch =
     (case map_of (zip ''abcdefghijklmnopqrstuvwxyz'' ''ABCDEFGHIJKLMNOPQRSTUVWXYZ'') ch of
        Some u \<Rightarrow> u
      | None \<Rightarrow> ch)"

text \<open>The number that a string of decimal digits denotes.\<close>

definition decimal_value :: "string \<Rightarrow> int" where
  "decimal_value s = foldl (\<lambda>acc ch. 10 * acc + (of_char ch - 48)) 0 s"

subsection \<open>Concrete inputs\<close>

text \<open>
  An environment whose Gmail call resolves and one whose Gmail call rejects with a given
  message; 105 different messages.
\<close>

definition env0 :: env where
  "env0 = \<lparr>now = (\<lambda>k. ''2024-01-01T00:00:00.000Z''), locale_string = show_int,
     string_to_number = (\<lambda>s. NaN), error_text = (\<lambda>e. ''TypeError''),
     unicode_upper = (\<lambda>s. s), encode = id,
     gmail_send = (\<lambda>k raw. None)\<rparr>"

definition env_rejecting :: "string \<Rightarrow> env" where
  "env_rejecting d = env0\<lparr>gmail_send := (\<lambda>k raw. Some d)\<rparr>"




definition msgs105 :: "string list" where
  "msgs105 = map (\<lambda>n. replicate n CHR ''m'') [0..<105]"

text \<open>
  The charge of the specification's scenario A and its event; the same charge without a
  customer; a charge in \<open>eur\<close>; a charge without a currency; an event of a type that is
  not monitored.
\<close>

definition chargeA :: js_value where
  "chargeA = JObj [(''amount'', JNum 2599), (''currency'', JStr ''usd''), (''id'', JStr ''ch_1''),
     (''created'', JNum 1700000000), (''customer'', JStr ''cus_1'')]"

definition evA :: js_value where
  "evA = JObj [(''type'', JStr ''charge.failed''), (''data'', JObj [(''object'', chargeA)])]"

definition chargeG :: js_value where
  "chargeG = JObj [(''amount'', JNum 2599), (''currency'', JStr ''usd''), (''id'', JStr ''ch_2''),
     (''created'', JNum 1700000000)]"

definition evG :: js_value where
  "evG = JObj [(''type'', JStr ''charge.failed''), (''data'', JObj [(''object'', chargeG)])]"

definition chargeE :: js_value where
  "chargeE = JObj [(''amount'', JNum 1050), (''currency'', JStr ''eur''), (''id'', JStr ''ch_3''),
     (''created'', JNum 1700000000), (''customer'', JStr ''cus_3'')]"

definition evE :: js_value where
  "evE = JObj [(''type'', JStr ''charge.failed''), (''data'', JObj [(''object'', chargeE)])]"

definition ev_no_currency :: js_value where
  "ev_no_currency =
     JObj [(''type'', JStr ''charge.failed''),
           (''data'', JObj [(''object'', JObj [(''amount'', JNum 2599)])])]"

definition ev_ignored :: js_value where
  "ev_ignored = JObj [(''type'', JStr ''customer.created''), (''data'', JObj [])]"

text \<open>
  Invoices: with a next attempt, with the next attempt at second 0, and with neither a
  next attempt nor an \<open>id\<close>.
\<close>

definition invoice_event :: "js_value \<Rightarrow> js_value" where
  "invoice_event obj =
     JObj [(''type'', JStr ''invoice.payment_failed''), (''data'', JObj [(''object'', obj)])]"

definition invoiceA :: js_value where
  "invoiceA = JObj [(''amount_due'', JNum 2599), (''currency'', JStr ''usd''),
     (''customer'', JStr ''cus_1''), (''attempt_count'', JNum 1),
     (''next_payment_attempt'', JNum 1700000000), (''id'', JStr ''in_1'')]"

definition invoice_epoch :: js_value where
  "invoice_epoch = JObj [(''amount_due'', JNum 2599), (''currency'', JStr ''usd''),
     (''customer'', JStr ''cus_1''), (''attempt_count'', JNum 1),
     (''next_payment_attempt'', JNum 0), (''id'', JStr ''in_1'')]"

definition invoice_bare :: js_value where
  "invoice_bare = JObj [(''amount_due'', JNum 2599), (''currency'', JStr ''usd''),
     (''customer'', JStr ''cus_1''), (''attempt_count'', JNum 1)]"

section \<open>Properties\<close>

subsection \<open>The activity log\<close>

lemma last_n_append: "last_n n (last_n n xs @ ys) = last_n n (xs @ ys)"
  by (cases "length xs \<le> n") (simp_all add: last_n_def add.commute)

lemma last_n_min: "last_n (min (length xs) n) xs = last_n n xs"
  by (cases "length xs \<le> n") (simp_all add: last_n_def)

lemma length_last_n: "length (last_n n xs) = min n (length xs)"
  by (simp add: last_n_def)

lemma messages_addLog:
  assumes "length (logs st) \<le> 100"
  shows "messages (addLog env m st) = last_n 100 (messages st @ [m])"
proof (cases "length (logs st) = 100")
  case True
  then have "logs st \<noteq> []" by auto
  with True show ?thesis
    by (simp add: addLog_def messages_def last_n_def Let_def drop_Suc map_tl)
next
  case False
  with assms have "length (logs st) < 100" by simp
  then show ?thesis
    by (simp add: addLog_def messages_def last_n_def Let_def)
qed

lemma length_logs_addLog:
  "length (logs st) \<le> 100 \<Longrightarrow> length (logs (addLog env m st)) \<le> 100"
  by (simp add: addLog_def Let_def)

lemma addLog_attempts: "attempts (addLog env m st) = attempts st"
  by (simp add: addLog_def Let_def)

lemma addLog_clock: "clock (addLog env m st) = Suc (clock st)"
  by (simp add: addLog_def Let_def)

lemma addLog_attempts_update:
  "addLog env m (st\<lparr>attempts := k\<rparr>) = (addLog env m st)\<lparr>attempts := k\<rparr>"
  by (simp add: addLog_def Let_def)

lemma last_logs_addLog:
  "logs (addLog env m st) \<noteq> [] \<and> message (last (logs (addLog env m st))) = m"
proof (cases "logs st = []")
  case True
  then show ?thesis
    by (simp add: addLog_def Let_def)
next
  case False
  then have "tl (logs st @ [\<lparr>timestamp = now env (clock st), message = m\<rparr>]) =
      tl (logs st) @ [\<lparr>timestamp = now env (clock st), message = m\<rparr>]"
    by simp
  then show ?thesis
    by (simp add: addLog_def Let_def)
qed

lemma appends_Nil: "appends env [] st = st"
  by (simp add: appends_def)

lemma appends_Cons: "appends env (m # ms) st = appends env ms (addLog env m st)"
  by (simp add: appends_def)

lemma appends_bounded:
  "length (logs st) \<le> 100 \<Longrightarrow> length (logs (appends env ms st)) \<le> 100"
  by (induction ms arbitrary: st) (simp_all add: appends_Nil appends_Cons length_logs_addLog)

lemma messages_appends:
  "length (logs st) \<le> 100 \<Longrightarrow> messages (appends env ms st) = last_n 100 (messages st @ ms)"
proof (induction ms arbitrary: st)
  case Nil
  then show ?case by (simp add: appends_Nil last_n_def messages_def)
next
  case (Cons m ms)
  have "messages (appends env (m # ms) st) = last_n 100 (messages (addLog env m st) @ ms)"
    using Cons.IH [of "addLog env m st"] Cons.prems
    by (simp add: appends_Cons length_logs_addLog)
  also have "\<dots> = last_n 100 (last_n 100 (messages st @ [m]) @ ms)"
    using Cons.prems by (simp add: messages_addLog)
  also have "\<dots> = last_n 100 (messages st @ m # ms)"
    by (simp add: last_n_append)
  finally show ?case .
qed

lemma appends_attempts: "attempts (appends env ms st) = attempts st"
  by (induction ms arbitrary: st) (simp_all add: appends_Nil appends_Cons addLog_attempts)

lemma appends_clock: "clock (appends env ms st) = clock st + length ms"
  by (induction ms arbitrary: st) (simp_all add: appends_Nil appends_Cons addLog_clock)

lemma last_logs_appends:
  "logs (appends env (ms @ [m]) st) \<noteq> [] \<and>
   message (last (logs (appends env (ms @ [m]) st))) = m"
  by (simp add: appends_def last_logs_addLog)

lemma messages_attempts_update: "messages (st\<lparr>attempts := k\<rparr>) = messages st"
  by (simp add: messages_def)

lemma logs_count_messages: "logs_count st = length (messages st)"
  by (simp add: logs_count_def messages_def)

lemma recent_100: "length (logs st) \<le> 100 \<Longrightarrow> recent 100 st = logs st"
  by (simp add: recent_def slice_from_def)

lemma empty_state_facts:
  "length (logs empty_state) \<le> 100" "messages empty_state = []" "attempts empty_state = 0"
  by (simp_all add: empty_state_def messages_def)

text \<open>
  Claim C2. Starting from the empty log, after any run of appends the log holds at most
  100 entries (also after every prefix of the run), and \<open>recent 100\<close> holds the messages
  of the last \<open>min N 100\<close> appends, in the order of the appends. After 105 appends the
  log holds 100 entries, the messages of appends 6 to 105; when the 105 messages are
  pairwise different, none of the first five is among them.
\<close>

theorem activity_log_keeps_last_100:
  "logs_count (appends env msgs empty_state) = min (length msgs) 100 \<and>
   (\<forall>k \<le> length msgs. logs_count (appends env (take k msgs) empty_state) \<le> 100) \<and>
   map message (recent 100 (appends env msgs empty_state)) = last_n (min (length msgs) 100) msgs \<and>
   (length msgs = 105 \<longrightarrow>
      logs_count (appends env msgs empty_state) = 100 \<and>
      map message (recent 100 (appends env msgs empty_state)) = drop 5 msgs \<and>
      (distinct msgs \<longrightarrow>
         set (take 5 msgs) \<inter> set (map message (recent 100 (appends env msgs empty_state))) = {}))"
proof -
  have e: "length (logs empty_state) \<le> 100" "messages empty_state = []"
    by (simp_all add: empty_state_def messages_def)
  have m: "map message (logs (appends env msgs empty_state)) = last_n 100 msgs"
    using messages_appends [OF e(1), of env msgs] e(2) by (simp add: messages_def)
  have b: "\<And>ms. length (logs (appends env ms empty_state)) \<le> 100"
    using appends_bounded [OF e(1)] by simp
  have r: "map message (recent 100 (appends env msgs empty_state)) = last_n 100 msgs"
    using m by (simp add: recent_100 b)
  have c: "logs_count (appends env msgs empty_state) = min (length msgs) 100"
    using arg_cong [OF m, of length] by (simp add: logs_count_def length_last_n min.commute)
  have d: "set (take 5 msgs) \<inter> set (drop 5 msgs) = {}" if "distinct msgs"
    using that distinct_append [of "take 5 msgs" "drop 5 msgs"] by simp
  have p: "\<forall>k \<le> length msgs. logs_count (appends env (take k msgs) empty_state) \<le> 100"
    by (simp add: logs_count_def b)
  have f: "length msgs = 105 \<longrightarrow> last_n 100 msgs = drop 5 msgs"
    by (simp add: last_n_def)
  show ?thesis
    using c r d p f by (simp add: last_n_min)
qed

text \<open>The theorem at 105 different messages: the strings of 0 to 104 letters \<open>m\<close>.\<close>

theorem activity_log_keeps_last_100_witness:
  "length msgs105 = 105 \<and> distinct msgs105 \<and>
   logs_count (appends env0 msgs105 empty_state) = 100 \<and>
   map message (recent 100 (appends env0 msgs105 empty_state)) = drop 5 msgs105 \<and>
   set (take 5 msgs105) \<inter> set (map message (recent 100 (appends env0 msgs105 empty_state))) = {}"
proof -
  have l: "length msgs105 = 105"
    by (simp add: msgs105_def)
  have d: "distinct msgs105"
    by (simp add: msgs105_def distinct_map inj_on_def)
  have "length msgs105 = 105 \<longrightarrow>
      logs_count (appends env0 msgs105 empty_state) = 100 \<and>
      map message (recent 100 (appends env0 msgs105 empty_state)) = drop 5 msgs105 \<and>
      (distinct msgs105 \<longrightarrow>
         set (take 5 msgs105) \<inter>
           set (map message (recent 100 (appends env0 msgs105 empty_state))) = {})"
    using activity_log_keeps_last_100 [of env0 msgs105] by blast
  with l d show ?thesis
    by blast
qed

subsection \<open>Exceptions and coercions\<close>

lemma bind_result_Inr: "bind_result (Inr v) f = f v"
  by (simp add: bind_result_def)

lemma bind_result_Inl: "bind_result (Inl e) f = Inl e"
  by (simp add: bind_result_def)

lemma bind_result_eq_Inr:
  "bind_result m f = Inr r \<longleftrightarrow> (\<exists>v. m = Inr v \<and> f v = Inr r)"
  by (cases m) (simp_all add: bind_result_def)

lemma to_string_stringable: "stringable v \<Longrightarrow> to_string v = Inr (text_of v)"
  by (simp add: stringable_def text_of_def split: sum.splits)

lemma to_number_stringable: "stringable v \<Longrightarrow> to_number env v = Inr (number_of env v)"
  by (cases v) (auto simp add: stringable_def number_of_def bind_result_def split: sum.splits if_splits)

lemma stringable_js_or: "stringable v \<Longrightarrow> stringable (js_or v (JStr d))"
  by (simp add: js_or_def stringable_def)

lemma get_prop_field:
  assumes "field obj q = JStr c"
  shows "get_prop obj p = Inr (field obj p)"
  using assms by (cases obj) (simp_all add: field_def)

lemma text_of_default:
  "text_of (js_or JUndefined (JStr d)) = d"
  "text_of JUndefined = ''undefined''"
  by (simp_all add: text_of_def js_or_def)

lemma number_of_JNum: "number_of env (JNum a) = Finite a"
  by (simp add: number_of_def)

lemma next_attempt_text_stringable:
  "stringable v \<Longrightarrow> next_attempt_text env v =
     Inr (if to_boolean v then date_toLocaleString env (times1000 (number_of env v))
          else ''No retry scheduled'')"
  by (simp add: next_attempt_text_def to_number_stringable bind_result_Inr)

subsection \<open>Amounts and currencies\<close>

lemma digit_char_cases:
  assumes "0 \<le> d" "d < 10"
  shows "digit_char d \<in> set ''0123456789'' \<and> of_char (digit_char d) = 48 + d"
proof -
  from assms have "d = 0 \<or> d = 1 \<or> d = 2 \<or> d = 3 \<or> d = 4 \<or> d = 5 \<or> d = 6 \<or> d = 7 \<or> d = 8 \<or> d = 9"
    by arith
  then show ?thesis
    by (elim disjE) (simp_all add: digit_char_def char_of_def)
qed

lemma show_digits_digits: "0 \<le> n \<Longrightarrow> set (show_digits n) \<subseteq> set ''0123456789''"
proof (induction n rule: show_digits.induct)
  case (1 n)
  show ?case
  proof (cases "n < 10")
    case True
    have "show_digits n = [digit_char n]"
      using True by (subst show_digits.simps) simp
    with "1.prems" True digit_char_cases [of n] show ?thesis
      by simp
  next
    case False
    then have r: "0 \<le> n div 10" "0 \<le> n mod 10" "n mod 10 < 10"
      by simp_all
    have "show_digits n = show_digits (n div 10) @ [digit_char (n mod 10)]"
      using False by (subst show_digits.simps) simp
    with "1.IH" [OF False r(1)] digit_char_cases [OF r(2,3)] show ?thesis
      by simp
  qed
qed

lemma show_digits_not_Nil: "show_digits n \<noteq> []"
  by (subst show_digits.simps) simp

lemma decimal_value_snoc:
  "decimal_value (xs @ [c]) = 10 * decimal_value xs + (of_char c - 48)"
  by (simp add: decimal_value_def)

lemma decimal_value_show_digits: "0 \<le> n \<Longrightarrow> decimal_value (show_digits n) = n"
proof (induction n rule: show_digits.induct)
  case (1 n)
  show ?case
  proof (cases "n < 10")
    case True
    have "show_digits n = [digit_char n]"
      using True by (subst show_digits.simps) simp
    with "1.prems" True digit_char_cases [of n] show ?thesis
      by (simp add: decimal_value_def)
  next
    case False
    then have r: "0 \<le> n div 10" "0 \<le> n mod 10" "n mod 10 < 10"
      by simp_all
    have "show_digits n = show_digits (n div 10) @ [digit_char (n mod 10)]"
      using False by (subst show_digits.simps) simp
    with "1.IH" [OF False r(1)] digit_char_cases [OF r(2,3)] show ?thesis
      by (simp add: decimal_value_snoc)
  qed
qed

lemma hundredths_bounds:
  "0 \<le> \<bar>a\<bar> div 100" "0 \<le> \<bar>a\<bar> mod 100 div 10" "0 \<le> \<bar>a\<bar> mod 10" "\<bar>a\<bar> mod 10 < (10::int)"
  by simp_all

lemma hundredths_tens: "\<bar>a\<bar> mod 100 div 10 < (10::int)"
proof -
  have "\<bar>a\<bar> mod 100 < 100" by simp
  then show ?thesis by (simp add: div_less_iff_less_mult)
qed

lemma hundredths_split: "10 * (\<bar>a\<bar> mod 100 div 10) + \<bar>a\<bar> mod 10 = \<bar>a::int\<bar> mod 100"
proof -
  have "\<bar>a\<bar> mod 10 = \<bar>a\<bar> mod 100 mod 10"
    by (simp add: mod_mod_cancel)
  then show ?thesis
    by simp
qed

lemma div100_toFixed2_shape:
  "\<exists>w f. div100_toFixed2 (Finite a) = (if a < 0 then ''-'' else []) @ w @ ''.'' @ f \<and>
     w \<noteq> [] \<and> length f = 2 \<and> set (w @ f) \<subseteq> set ''0123456789'' \<and>
     decimal_value w * 100 + decimal_value f = \<bar>a\<bar>"
proof -
  define w where "w = show_digits (\<bar>a\<bar> div 100)"
  define t where "t = digit_char (\<bar>a\<bar> mod 100 div 10)"
  define u where "u = digit_char (\<bar>a\<bar> mod 10)"
  have dt: "t \<in> set ''0123456789''" "of_char t = 48 + \<bar>a\<bar> mod 100 div 10"
    using digit_char_cases [OF hundredths_bounds(2) hundredths_tens, of a]
    unfolding t_def by blast+
  have du: "u \<in> set ''0123456789''" "of_char u = 48 + \<bar>a\<bar> mod 10"
    using digit_char_cases [OF hundredths_bounds(3,4), of a]
    unfolding u_def by blast+
  have "decimal_value [t, u] = 10 * (\<bar>a\<bar> mod 100 div 10) + \<bar>a\<bar> mod 10"
    by (simp add: decimal_value_def dt(2) du(2))
  then have f: "decimal_value [t, u] = \<bar>a\<bar> mod 100"
    by (simp only: hundredths_split)
  have "decimal_value w = \<bar>a\<bar> div 100"
    unfolding w_def by (rule decimal_value_show_digits [OF hundredths_bounds(1)])
  with f have v: "decimal_value w * 100 + decimal_value [t, u] = \<bar>a\<bar>"
    by simp
  have "set w \<subseteq> set ''0123456789''"
    unfolding w_def by (rule show_digits_digits [OF hundredths_bounds(1)])
  with dt(1) du(1) have s: "set (w @ [t, u]) \<subseteq> set ''0123456789''"
    by (simp only: set_append set_simps Un_subset_iff insert_subset) simp
  have e: "div100_toFixed2 (Finite a) = (if a < 0 then ''-'' else []) @ w @ ''.'' @ [t, u]"
    by (simp add: div100_toFixed2_def w_def t_def u_def)
  have l: "w \<noteq> []" "length [t, u] = 2"
    unfolding w_def by (simp_all add: show_digits_not_Nil)
  from e l s v show ?thesis
    by blast
qed

lemma fixed_2599: "div100_toFixed2 (Finite 2599) = ''25.99''"
  by (simp add: div100_toFixed2_def show_digits.simps digit_char_def char_of_def)

lemma show_int_1: "show_int 1 = ''1''"
  by (simp add: show_int_def show_digits.simps digit_char_def char_of_def)

lemma small_letter_codes:
  assumes "ch \<in> set ''abcdefghijklmnopqrstuvwxyz''"
  shows "97 \<le> (of_char ch :: int) \<and> (of_char ch :: int) \<le> 122"
  using assms by auto

lemma upper_char_table: "upper_char ch = spec_uppercase ch"
proof (cases "97 \<le> (of_char ch :: int) \<and> (of_char ch :: int) \<le> 122")
  case True
  then have "(of_char ch :: int) \<in> set [97..122]"
    by (simp only: set_upto atLeastAtMost_iff)
  then have "ch \<in> char_of ` set [97 :: int..122]"
    by (metis char_of_char imageI)
  then have "ch \<in> set ''abcdefghijklmnopqrstuvwxyz''"
    by (simp add: char_of_def)
  then show ?thesis
    by (auto simp add: upper_char_def spec_uppercase_def char_of_def)
next
  case False
  then have "ch \<notin> set ''abcdefghijklmnopqrstuvwxyz''"
    using small_letter_codes by blast
  then have "map_of (zip ''abcdefghijklmnopqrstuvwxyz'' ''ABCDEFGHIJKLMNOPQRSTUVWXYZ'') ch = None"
    by (simp only: map_of_eq_None_iff) simp
  then have "spec_uppercase ch = ch"
    unfolding spec_uppercase_def by (simp only: option.case)
  moreover from False have "upper_char ch = ch"
    by (auto simp add: upper_char_def Let_def)
  ultimately show ?thesis
    by simp
qed

lemma toUpperCase_ascii: "is_ascii s \<Longrightarrow> toUpperCase env s = map spec_uppercase s"
  by (simp add: toUpperCase_def upper_char_table)

lemma upper_usd: "toUpperCase env ''usd'' = ''USD''"
  by (simp add: toUpperCase_def is_ascii_def upper_char_def char_of_def)

lemma spec_uppercase_eur: "map spec_uppercase ''eur'' = ''EUR''"
  by (simp add: spec_uppercase_def)

subsection \<open>The templates\<close>

lemma sublist_trans: "sublist xs ys \<Longrightarrow> sublist ys zs \<Longrightarrow> sublist xs zs"
  using sublist_order.order_trans by blast

lemma sublist_template: "l \<in> set ls \<Longrightarrow> sublist l (template ls)"
proof -
  assume "l \<in> set ls"
  then obtain as bs where "ls = as @ l # bs"
    by (auto dest: split_list)
  then have "template ls =
      (concat (map indent_line as) @ nl @ ''      '') @ l @
      (concat (map indent_line bs) @ nl @ ''    '')"
    by (simp add: template_def indent_line_def)
  then show ?thesis
    by (metis sublist_appendI)
qed

lemma charge_body_lines:
  "sublist (''<p><strong>Customer ID:</strong> '' @ cu @ ''</p>'') (charge_body a c cu fc fm i t)"
  "sublist (''<p><strong>Failure Code:</strong> '' @ fc @ ''</p>'') (charge_body a c cu fc fm i t)"
  "sublist (''<p><strong>Failure Message:</strong> '' @ fm @ ''</p>'')
     (charge_body a c cu fc fm i t)"
  unfolding charge_body_def by (rule sublist_template, simp)+

lemma invoice_body_lines:
  "sublist (''<p><strong>Invoice Number:</strong> '' @ n @ ''</p>'')
     (invoice_body a c cu n su ac na i)"
  "sublist (''<p><strong>Subscription ID:</strong> '' @ su @ ''</p>'')
     (invoice_body a c cu n su ac na i)"
  "sublist (''<p><strong>Next Attempt:</strong> '' @ na @ ''</p>'')
     (invoice_body a c cu n su ac na i)"
  unfolding invoice_body_def by (rule sublist_template, simp)+

lemma invoice_body_link:
  "sublist (''<a href='' @ dq @ ''https://dashboard.stripe.com/invoices/'' @ i @ dq @
            ''>Open Invoice</a>'') (invoice_body a c cu n su ac na i)"
proof -
  let ?line = "''<p><small>View in Stripe Dashboard: <a href='' @ dq @
         ''https://dashboard.stripe.com/invoices/'' @ i @ dq @
         ''>Open Invoice</a></small></p>''"
  have "sublist ?line (invoice_body a c cu n su ac na i)"
    unfolding invoice_body_def by (rule sublist_template) simp
  moreover have "?line = ''<p><small>View in Stripe Dashboard: '' @
      (''<a href='' @ dq @ ''https://dashboard.stripe.com/invoices/'' @ i @ dq @
            ''>Open Invoice</a>'') @ ''</small></p>''"
    by simp
  then have "sublist (''<a href='' @ dq @ ''https://dashboard.stripe.com/invoices/'' @ i @ dq @
            ''>Open Invoice</a>'') ?line"
    by (metis sublist_appendI)
  ultimately show ?thesis
    by (rule sublist_trans [rotated])
qed

lemma charge_body_defaults:
  "sublist ''<p><strong>Customer ID:</strong> Guest</p>'' (charge_body a c ''Guest'' fc fm i t)"
  "sublist ''<p><strong>Failure Code:</strong> Unknown</p>'' (charge_body a c cu ''Unknown'' fm i t)"
  "sublist ''<p><strong>Failure Message:</strong> No details provided</p>''
     (charge_body a c cu fc ''No details provided'' i t)"
  using charge_body_lines(1) [of "''Guest''" a c fc fm i t]
    charge_body_lines(2) [of "''Unknown''" a c cu fm i t]
    charge_body_lines(3) [of "''No details provided''" a c cu fc i t]
  by simp_all

lemma invoice_body_defaults:
  "sublist ''<p><strong>Invoice Number:</strong> Draft</p>''
     (invoice_body a c cu ''Draft'' su ac na i)"
  "sublist ''<p><strong>Subscription ID:</strong> N/A</p>''
     (invoice_body a c cu n ''N/A'' ac na i)"
  "sublist ''<p><strong>Next Attempt:</strong> No retry scheduled</p>''
     (invoice_body a c cu n su ac ''No retry scheduled'' i)"
  using invoice_body_lines(1) [of "''Draft''" a c cu su ac na i]
    invoice_body_lines(2) [of "''N/A''" a c cu n ac na i]
    invoice_body_lines(3) [of "''No retry scheduled''" a c cu n su ac i]
  by simp_all

lemma scenario_subject: "sublist ''$25.99 USD'' (charge_subject ''25.99'' ''USD'')"
proof -
  have "charge_subject ''25.99'' ''USD'' =
      (emoji_card @ '' Payment Failure Alert - '') @ ''$25.99 USD'' @ []"
    by (simp add: charge_subject_def)
  then show ?thesis
    by (metis sublist_appendI)
qed

subsection \<open>Rendering\<close>

lemma render_charge_strings:
  "render_charge env dat = Inr (s, b) \<Longrightarrow> \<exists>ss bs. s = JStr ss \<and> b = JStr bs"
  by (auto simp add: render_charge_def bind_result_eq_Inr)

lemma render_invoice_strings:
  "render_invoice env dat = Inr (s, b) \<Longrightarrow> \<exists>ss bs. s = JStr ss \<and> b = JStr bs"
  by (auto simp add: render_invoice_def bind_result_eq_Inr)

lemma formatFailureEmail_strings:
  assumes "get_prop ev ''type'' = Inr ty" "is_monitored ty" "formatFailureEmail env ev = Inr (s, b)"
  shows "\<exists>ss bs. s = JStr ss \<and> b = JStr bs"
proof -
  from assms(3) have nn: "ev \<noteq> JUndefined" "ev \<noteq> JNull"
    by (auto simp add: formatFailureEmail_def)
  from assms(1) nn obtain dat where dat: "get_prop ev ''data'' = Inr dat"
    by (cases ev) auto
  from assms nn dat have "render_charge env dat = Inr (s, b) \<or> render_invoice env dat = Inr (s, b)"
    by (auto simp add: formatFailureEmail_def bind_result_Inr is_monitored_def split: if_splits)
  then show ?thesis
    using render_charge_strings render_invoice_strings by blast
qed

lemma formatFailureEmail_dispatch:
  assumes "get_prop ev ''type'' = Inr ty" "get_prop ev ''data'' = Inr dat"
  shows "formatFailureEmail env ev =
    (if ty = JStr ''charge.failed'' then render_charge env dat
     else if ty = JStr ''invoice.payment_failed'' then render_invoice env dat
     else Inr (JUndefined, JUndefined))"
  using assms by (cases ev) (simp_all add: formatFailureEmail_def bind_result_Inr)

lemma payload_cases:
  assumes "payload ev = Inr obj"
  obtains dat where "get_prop ev ''data'' = Inr dat" "get_prop dat ''object'' = Inr obj"
  using assms by (auto simp add: payload_def bind_result_eq_Inr)

lemma render_charge_closed:
  assumes "get_prop dat ''object'' = Inr obj" "field obj ''currency'' = JStr c"
    and "\<forall>p \<in> set charge_fields. stringable (field obj p)"
  shows "render_charge env dat =
    Inr (JStr (charge_subject (div100_toFixed2 (number_of env (field obj ''amount'')))
                 (toUpperCase env c)),
         JStr (charge_body (div100_toFixed2 (number_of env (field obj ''amount'')))
                 (toUpperCase env c)
                 (text_of (js_or (field obj ''customer'') (JStr ''Guest'')))
                 (text_of (js_or (field obj ''failure_code'') (JStr ''Unknown'')))
                 (text_of (js_or (field obj ''failure_message'') (JStr ''No details provided'')))
                 (text_of (field obj ''id''))
                 (date_toLocaleString env (times1000 (number_of env (field obj ''created''))))))"
proof -
  note g = get_prop_field [OF assms(2)]
  have s: "stringable (field obj ''customer'')" "stringable (field obj ''amount'')"
    "stringable (field obj ''failure_code'')" "stringable (field obj ''failure_message'')"
    "stringable (field obj ''id'')" "stringable (field obj ''created'')"
    using assms(3) by (simp_all add: charge_fields_def)
  show ?thesis
    unfolding render_charge_def
    by (simp add: assms(1,2) g bind_result_Inr to_number_stringable s
        to_string_stringable stringable_js_or)
qed

lemma render_invoice_closed:
  assumes "get_prop dat ''object'' = Inr obj" "field obj ''currency'' = JStr c"
    and "\<forall>p \<in> set invoice_fields. stringable (field obj p)"
  shows "render_invoice env dat =
    Inr (JStr (invoice_subject (div100_toFixed2 (number_of env (field obj ''amount_due'')))
                 (toUpperCase env c)),
         JStr (invoice_body (div100_toFixed2 (number_of env (field obj ''amount_due'')))
                 (toUpperCase env c)
                 (text_of (field obj ''customer''))
                 (text_of (js_or (field obj ''number'') (JStr ''Draft'')))
                 (text_of (js_or (field obj ''subscription'') (JStr ''N/A'')))
                 (text_of (field obj ''attempt_count''))
                 (if to_boolean (field obj ''next_payment_attempt'')
                  then date_toLocaleString env
                         (times1000 (number_of env (field obj ''next_payment_attempt'')))
                  else ''No retry scheduled'')
                 (text_of (field obj ''id''))))"
proof -
  note g = get_prop_field [OF assms(2)]
  have s: "stringable (field obj ''customer'')" "stringable (field obj ''amount_due'')"
    "stringable (field obj ''number'')" "stringable (field obj ''subscription'')"
    "stringable (field obj ''attempt_count'')" "stringable (field obj ''next_payment_attempt'')"
    "stringable (field obj ''id'')"
    using assms(3) by (simp_all add: invoice_fields_def)
  show ?thesis
    unfolding render_invoice_def
    by (simp add: assms(1,2) g bind_result_Inr to_number_stringable s
        to_string_stringable stringable_js_or next_attempt_text_stringable)
qed

lemma render_charge_event:
  assumes "get_prop ev ''type'' = Inr (JStr ''charge.failed'')" "payload ev = Inr obj"
    and "field obj ''currency'' = JStr c"
    and "\<forall>p \<in> set charge_fields. stringable (field obj p)"
  shows "formatFailureEmail env ev =
    Inr (JStr (charge_subject (div100_toFixed2 (number_of env (field obj ''amount'')))
                 (toUpperCase env c)),
         JStr (charge_body (div100_toFixed2 (number_of env (field obj ''amount'')))
                 (toUpperCase env c)
                 (text_of (js_or (field obj ''customer'') (JStr ''Guest'')))
                 (text_of (js_or (field obj ''failure_code'') (JStr ''Unknown'')))
                 (text_of (js_or (field obj ''failure_message'') (JStr ''No details provided'')))
                 (text_of (field obj ''id''))
                 (date_toLocaleString env (times1000 (number_of env (field obj ''created''))))))"
proof -
  from assms(2) obtain dat where
    d: "get_prop ev ''data'' = Inr dat" and o: "get_prop dat ''object'' = Inr obj"
    by (rule payload_cases)
  show ?thesis
    using render_charge_closed [OF o assms(3,4), of env]
    by (simp add: formatFailureEmail_dispatch [OF assms(1) d])
qed

lemma render_invoice_event:
  assumes "get_prop ev ''type'' = Inr (JStr ''invoice.payment_failed'')" "payload ev = Inr obj"
    and "field obj ''currency'' = JStr c"
    and "\<forall>p \<in> set invoice_fields. stringable (field obj p)"
  shows "formatFailureEmail env ev =
    Inr (JStr (invoice_subject (div100_toFixed2 (number_of env (field obj ''amount_due'')))
                 (toUpperCase env c)),
         JStr (invoice_body (div100_toFixed2 (number_of env (field obj ''amount_due'')))
                 (toUpperCase env c)
                 (text_of (field obj ''customer''))
                 (text_of (js_or (field obj ''number'') (JStr ''Draft'')))
                 (text_of (js_or (field obj ''subscription'') (JStr ''N/A'')))
                 (text_of (field obj ''attempt_count''))
                 (if to_boolean (field obj ''next_payment_attempt'')
                  then date_toLocaleString env
                         (times1000 (number_of env (field obj ''next_payment_attempt'')))
                  else ''No retry scheduled'')
                 (text_of (field obj ''id''))))"
proof -
  from assms(2) obtain dat where
    d: "get_prop ev ''data'' = Inr dat" and o: "get_prop dat ''object'' = Inr obj"
    by (rule payload_cases)
  show ?thesis
    using render_invoice_closed [OF o assms(3,4), of env]
    by (simp add: formatFailureEmail_dispatch [OF assms(1) d])
qed

subsection \<open>The example events\<close>

lemma ev_ignored_type:
  "get_prop ev_ignored ''type'' = Inr (JStr ''customer.created'')"
  "to_string (JStr ''customer.created'') = Inr ''customer.created''"
  "\<not> is_monitored (JStr ''customer.created'')"
  by (simp_all add: ev_ignored_def is_monitored_def)

lemma evA_type:
  "get_prop evA ''type'' = Inr (JStr ''charge.failed'')"
  "to_string (JStr ''charge.failed'') = Inr ''charge.failed''"
  "is_monitored (JStr ''charge.failed'')"
  by (simp_all add: evA_def is_monitored_def)

lemma evA_payload: "payload evA = Inr chargeA"
  by (simp add: payload_def evA_def bind_result_Inr)

lemma chargeA_fields:
  "field chargeA ''currency'' = JStr ''usd''"
  "field chargeA ''amount'' = JNum 2599"
  "field chargeA ''customer'' = JStr ''cus_1''"
  "field chargeA ''failure_code'' = JUndefined"
  "field chargeA ''failure_message'' = JUndefined"
  "field chargeA ''id'' = JStr ''ch_1''"
  "field chargeA ''created'' = JNum 1700000000"
  by (simp_all add: field_def chargeA_def)

lemma chargeA_stringable: "\<forall>p \<in> set charge_fields. stringable (field chargeA p)"
  by (simp add: charge_fields_def chargeA_fields stringable_def)

lemma evA_renders: "\<exists>s b. formatFailureEmail env evA = Inr (JStr s, JStr b)"
proof -
  have d: "get_prop evA ''data'' = Inr (JObj [(''object'', chargeA)])"
    by (simp add: evA_def)
  have o: "get_prop (JObj [(''object'', chargeA)]) ''object'' = Inr chargeA"
    by simp
  show ?thesis
    using render_charge_closed [OF o chargeA_fields(1) chargeA_stringable, of env]
    by (simp add: formatFailureEmail_dispatch [OF evA_type(1) d])
qed

lemma evG_facts:
  "get_prop evG ''type'' = Inr (JStr ''charge.failed'')"
  "payload evG = Inr chargeG"
  "field chargeG ''amount'' = JNum 2599"
  "field chargeG ''currency'' = JStr ''usd''"
  "field chargeG ''customer'' = JUndefined"
  "\<forall>p \<in> set charge_fields. stringable (field chargeG p)"
  by (simp_all add: evG_def chargeG_def payload_def bind_result_Inr field_def charge_fields_def
      stringable_def)

lemma evE_facts:
  "get_prop evE ''type'' = Inr (JStr ''charge.failed'')"
  "payload evE = Inr chargeE"
  "field chargeE ''amount'' = JNum 1050"
  "field chargeE ''currency'' = JStr ''eur''"
  "\<forall>p \<in> set charge_fields. stringable (field chargeE p)"
  "is_ascii ''eur''"
  by (simp_all add: evE_def chargeE_def payload_def bind_result_Inr field_def charge_fields_def
      stringable_def is_ascii_def)

lemma invoice_event_facts:
  "get_prop (invoice_event obj) ''type'' = Inr (JStr ''invoice.payment_failed'')"
  "payload (invoice_event obj) = Inr obj"
  by (simp_all add: invoice_event_def payload_def bind_result_Inr)

lemma invoiceA_facts:
  "field invoiceA ''currency'' = JStr ''usd''"
  "field invoiceA ''next_payment_attempt'' = JNum 1700000000"
  "\<forall>p \<in> set invoice_fields. stringable (field invoiceA p)"
  by (simp_all add: invoiceA_def field_def invoice_fields_def stringable_def)

lemma invoice_bare_facts:
  "field invoice_bare ''currency'' = JStr ''usd''"
  "field invoice_bare ''next_payment_attempt'' = JUndefined"
  "field invoice_bare ''id'' = JUndefined"
  "\<forall>p \<in> set invoice_fields. stringable (field invoice_bare p)"
  by (simp_all add: invoice_bare_def field_def invoice_fields_def stringable_def)

lemma invoice_epoch_facts:
  "field invoice_epoch ''currency'' = JStr ''usd''"
  "field invoice_epoch ''amount_due'' = JNum 2599"
  "field invoice_epoch ''customer'' = JStr ''cus_1''"
  "field invoice_epoch ''number'' = JUndefined"
  "field invoice_epoch ''subscription'' = JUndefined"
  "field invoice_epoch ''attempt_count'' = JNum 1"
  "field invoice_epoch ''next_payment_attempt'' = JNum 0"
  "field invoice_epoch ''id'' = JStr ''in_1''"
  "\<forall>p \<in> set invoice_fields. stringable (field invoice_epoch p)"
  by (simp_all add: invoice_epoch_def field_def invoice_fields_def stringable_def)

lemma ev_no_currency_throws:
  "get_prop ev_no_currency ''type'' = Inr (JStr ''charge.failed'')"
  "formatFailureEmail env ev_no_currency = Inl (ReadOfNullish JUndefined ''toUpperCase'')"
  by (simp_all add: formatFailureEmail_def ev_no_currency_def render_charge_def bind_result_def)

lemma env0_message: "message_of env0 (ReadOfNullish v p) = ''TypeError''"
  by (simp add: message_of_def env0_def)

subsection \<open>Properties of rendering\<close>

lemma formatFailureEmail_well_formed:
  assumes "get_prop ev ''type'' = Inr ty" and "is_monitored ty"
    and "payload ev = Inr obj" and "field obj ''currency'' = JStr c"
    and "\<forall>p \<in> set (fields_read ty). stringable (field obj p)"
  shows "\<exists>subject body.
    formatFailureEmail env ev = Inr (JStr subject, JStr body) \<and>
    (ty = JStr ''charge.failed'' \<longrightarrow>
       (field obj ''customer'' = JUndefined \<longrightarrow>
          sublist ''<p><strong>Customer ID:</strong> Guest</p>'' body) \<and>
       (field obj ''failure_code'' = JUndefined \<longrightarrow>
          sublist ''<p><strong>Failure Code:</strong> Unknown</p>'' body) \<and>
       (field obj ''failure_message'' = JUndefined \<longrightarrow>
          sublist ''<p><strong>Failure Message:</strong> No details provided</p>'' body)) \<and>
    (ty = JStr ''invoice.payment_failed'' \<longrightarrow>
       (field obj ''number'' = JUndefined \<longrightarrow>
          sublist ''<p><strong>Invoice Number:</strong> Draft</p>'' body) \<and>
       (field obj ''subscription'' = JUndefined \<longrightarrow>
          sublist ''<p><strong>Subscription ID:</strong> N/A</p>'' body) \<and>
       (field obj ''next_payment_attempt'' = JUndefined \<longrightarrow>
          sublist ''<p><strong>Next Attempt:</strong> No retry scheduled</p>'' body))"
proof (cases "ty = JStr ''charge.failed''")
  case True
  with assms(5) have s: "\<forall>p \<in> set charge_fields. stringable (field obj p)"
    by (simp add: fields_read_def)
  note r = render_charge_event [OF assms(1) [unfolded True] assms(3,4) s, of env]
  show ?thesis
    using True by (simp add: r text_of_default charge_body_defaults)
next
  case False
  with assms(2) have ty: "ty = JStr ''invoice.payment_failed''"
    by (simp add: is_monitored_def)
  with assms(5) have s: "\<forall>p \<in> set invoice_fields. stringable (field obj p)"
    by (simp add: fields_read_def)
  note r = render_invoice_event [OF assms(1) [unfolded ty] assms(3,4) s, of env]
  show ?thesis
    using ty by (simp add: r text_of_default invoice_body_defaults)
qed

lemma call_toUpperCase_Inr: "call_toUpperCase env c = Inr u \<Longrightarrow> \<exists>s. c = JStr s"
  by (cases c) simp_all

lemma to_string_Inr_stringable: "to_string v = Inr s \<Longrightarrow> stringable v"
  by (simp add: stringable_def)

lemma to_number_Inr_stringable: "to_number env v = Inr x \<Longrightarrow> stringable v"
  by (cases v) (auto simp add: stringable_def bind_result_def split: sum.splits if_splits)

lemma js_or_Inr_stringable: "to_string (js_or v (JStr d)) = Inr s \<Longrightarrow> stringable v"
  by (cases v) (auto simp add: js_or_def stringable_def split: if_splits)

lemma falsy_stringable: "\<not> to_boolean v \<Longrightarrow> stringable v"
  by (cases v) (simp_all add: stringable_def)

lemma next_attempt_text_Inr_stringable: "next_attempt_text env v = Inr s \<Longrightarrow> stringable v"
  by (cases "to_boolean v")
    (auto simp add: next_attempt_text_def bind_result_eq_Inr falsy_stringable
      dest: to_number_Inr_stringable)

lemma get_prop_Inr_field: "get_prop v p = Inr x \<Longrightarrow> field v p = x"
  by (simp add: field_def)

lemma render_charge_only_if:
  assumes "render_charge env dat = Inr r"
  shows "\<exists>obj c. get_prop dat ''object'' = Inr obj \<and> field obj ''currency'' = JStr c \<and>
    (\<forall>p \<in> set charge_fields. stringable (field obj p))"
proof -
  from assms obtain obj customer a x c u fc fm i cr s1 s2 s3 s4 t where
    o: "get_prop dat ''object'' = Inr obj"
    and g: "get_prop obj ''customer'' = Inr customer" "get_prop obj ''amount'' = Inr a"
      "get_prop obj ''currency'' = Inr c" "get_prop obj ''failure_code'' = Inr fc"
      "get_prop obj ''failure_message'' = Inr fm" "get_prop obj ''id'' = Inr i"
      "get_prop obj ''created'' = Inr cr"
    and e: "to_number env a = Inr x" "call_toUpperCase env c = Inr u"
      "to_string (js_or customer (JStr ''Guest'')) = Inr s1"
      "to_string (js_or fc (JStr ''Unknown'')) = Inr s2"
      "to_string (js_or fm (JStr ''No details provided'')) = Inr s3"
      "to_string i = Inr s4" "to_number env cr = Inr t"
    unfolding render_charge_def bind_result_eq_Inr by blast
  from e(2) obtain s where c: "c = JStr s"
    using call_toUpperCase_Inr by blast
  have "\<forall>p \<in> set charge_fields. stringable (field obj p)"
    using g e
    by (simp add: charge_fields_def get_prop_Inr_field to_number_Inr_stringable
        js_or_Inr_stringable to_string_Inr_stringable)
  with o g(3) c show ?thesis
    by (simp add: get_prop_Inr_field)
qed

lemma render_invoice_only_if:
  assumes "render_invoice env dat = Inr r"
  shows "\<exists>obj c. get_prop dat ''object'' = Inr obj \<and> field obj ''currency'' = JStr c \<and>
    (\<forall>p \<in> set invoice_fields. stringable (field obj p))"
proof -
  from assms obtain obj customer a x c u n sub ac npa i s1 s2 s3 s4 s5 s6 where
    o: "get_prop dat ''object'' = Inr obj"
    and g: "get_prop obj ''customer'' = Inr customer" "get_prop obj ''amount_due'' = Inr a"
      "get_prop obj ''currency'' = Inr c" "get_prop obj ''number'' = Inr n"
      "get_prop obj ''subscription'' = Inr sub" "get_prop obj ''attempt_count'' = Inr ac"
      "get_prop obj ''next_payment_attempt'' = Inr npa" "get_prop obj ''id'' = Inr i"
    and e: "to_number env a = Inr x" "call_toUpperCase env c = Inr u"
      "to_string customer = Inr s1"
      "to_string (js_or n (JStr ''Draft'')) = Inr s2"
      "to_string (js_or sub (JStr ''N/A'')) = Inr s3"
      "to_string ac = Inr s4" "next_attempt_text env npa = Inr s5" "to_string i = Inr s6"
    unfolding render_invoice_def bind_result_eq_Inr by blast
  from e(2) obtain s where c: "c = JStr s"
    using call_toUpperCase_Inr by blast
  have "\<forall>p \<in> set invoice_fields. stringable (field obj p)"
    using g e
    by (simp add: invoice_fields_def get_prop_Inr_field to_number_Inr_stringable
        js_or_Inr_stringable to_string_Inr_stringable next_attempt_text_Inr_stringable)
  with o g(3) c show ?thesis
    by (simp add: get_prop_Inr_field)
qed

lemma formatFailureEmail_only_if:
  assumes "get_prop ev ''type'' = Inr ty" "is_monitored ty" "formatFailureEmail env ev = Inr r"
  shows "\<exists>obj c. payload ev = Inr obj \<and> field obj ''currency'' = JStr c \<and>
    (\<forall>p \<in> set (fields_read ty). stringable (field obj p))"
proof -
  from assms(1) obtain dat where d: "get_prop ev ''data'' = Inr dat"
    by (cases ev) auto
  have p: "payload ev = get_prop dat ''object''"
    by (simp add: payload_def d bind_result_Inr)
  show ?thesis
  proof (cases "ty = JStr ''charge.failed''")
    case True
    with assms(3) have "render_charge env dat = Inr r"
      by (simp add: formatFailureEmail_dispatch [OF assms(1) d])
    from render_charge_only_if [OF this] True show ?thesis
      by (simp add: p fields_read_def)
  next
    case False
    with assms(2) have ty: "ty = JStr ''invoice.payment_failed''"
      by (simp add: is_monitored_def)
    with assms(3) have "render_invoice env dat = Inr r"
      by (simp add: formatFailureEmail_dispatch [OF assms(1) d])
    from render_invoice_only_if [OF this] ty show ?thesis
      by (simp add: p fields_read_def)
  qed
qed

text \<open>
  Claim C3, amended. For an event of one of the two types, \<open>formatFailureEmail\<close> returns
  a subject and a body, both strings, exactly when \<open>data.object\<close> has a string as
  \<open>currency\<close> and its interpolated properties convert to strings (every JSON primitive
  and every absent property does); otherwise it throws. In a returned body each absent
  optional property shows as its default text: \<open>Guest\<close>, \<open>Unknown\<close>,
  \<open>No details provided\<close> for a charge; \<open>Draft\<close>, \<open>N/A\<close>, \<open>No retry scheduled\<close> for an
  invoice.
\<close>

theorem formatFailureEmail_total_when_well_formed:
  assumes "get_prop ev ''type'' = Inr ty" and "is_monitored ty"
  shows "((\<exists>subject body. formatFailureEmail env ev = Inr (JStr subject, JStr body)) \<longleftrightarrow>
      (\<exists>obj c. payload ev = Inr obj \<and> field obj ''currency'' = JStr c \<and>
         (\<forall>p \<in> set (fields_read ty). stringable (field obj p)))) \<and>
    ((\<exists>e. formatFailureEmail env ev = Inl e) \<longleftrightarrow>
      \<not> (\<exists>obj c. payload ev = Inr obj \<and> field obj ''currency'' = JStr c \<and>
         (\<forall>p \<in> set (fields_read ty). stringable (field obj p)))) \<and>
    (\<forall>obj subject body.
       payload ev = Inr obj \<and> formatFailureEmail env ev = Inr (JStr subject, JStr body) \<longrightarrow>
       (ty = JStr ''charge.failed'' \<longrightarrow>
          (field obj ''customer'' = JUndefined \<longrightarrow>
             sublist ''<p><strong>Customer ID:</strong> Guest</p>'' body) \<and>
          (field obj ''failure_code'' = JUndefined \<longrightarrow>
             sublist ''<p><strong>Failure Code:</strong> Unknown</p>'' body) \<and>
          (field obj ''failure_message'' = JUndefined \<longrightarrow>
             sublist ''<p><strong>Failure Message:</strong> No details provided</p>'' body)) \<and>
       (ty = JStr ''invoice.payment_failed'' \<longrightarrow>
          (field obj ''number'' = JUndefined \<longrightarrow>
             sublist ''<p><strong>Invoice Number:</strong> Draft</p>'' body) \<and>
          (field obj ''subscription'' = JUndefined \<longrightarrow>
             sublist ''<p><strong>Subscription ID:</strong> N/A</p>'' body) \<and>
          (field obj ''next_payment_attempt'' = JUndefined \<longrightarrow>
             sublist ''<p><strong>Next Attempt:</strong> No retry scheduled</p>'' body)))"
proof -
  let ?ok = "\<exists>obj c. payload ev = Inr obj \<and> field obj ''currency'' = JStr c \<and>
         (\<forall>p \<in> set (fields_read ty). stringable (field obj p))"
  have only_if: "?ok" if "formatFailureEmail env ev = Inr r" for r
    using formatFailureEmail_only_if [OF assms that] .
  have "if": "\<exists>subject body. formatFailureEmail env ev = Inr (JStr subject, JStr body)" if "?ok"
    using that formatFailureEmail_well_formed [OF assms, of _ _ env] by blast
  have A: "(\<exists>subject body. formatFailureEmail env ev = Inr (JStr subject, JStr body)) \<longleftrightarrow> ?ok"
    using only_if "if" by blast
  have B: "(\<exists>e. formatFailureEmail env ev = Inl e) \<longleftrightarrow> \<not> ?ok"
  proof (cases "formatFailureEmail env ev")
    case (Inl e)
    with "if" show ?thesis
      by auto
  next
    case (Inr r)
    with only_if [of r] show ?thesis
      by simp
  qed
  have C: "(ty = JStr ''charge.failed'' \<longrightarrow>
          (field obj ''customer'' = JUndefined \<longrightarrow>
             sublist ''<p><strong>Customer ID:</strong> Guest</p>'' body) \<and>
          (field obj ''failure_code'' = JUndefined \<longrightarrow>
             sublist ''<p><strong>Failure Code:</strong> Unknown</p>'' body) \<and>
          (field obj ''failure_message'' = JUndefined \<longrightarrow>
             sublist ''<p><strong>Failure Message:</strong> No details provided</p>'' body)) \<and>
       (ty = JStr ''invoice.payment_failed'' \<longrightarrow>
          (field obj ''number'' = JUndefined \<longrightarrow>
             sublist ''<p><strong>Invoice Number:</strong> Draft</p>'' body) \<and>
          (field obj ''subscription'' = JUndefined \<longrightarrow>
             sublist ''<p><strong>Subscription ID:</strong> N/A</p>'' body) \<and>
          (field obj ''next_payment_attempt'' = JUndefined \<longrightarrow>
             sublist ''<p><strong>Next Attempt:</strong> No retry scheduled</p>'' body))"
    if p: "payload ev = Inr obj"
      and r: "formatFailureEmail env ev = Inr (JStr subject, JStr body)" for obj subject body
  proof -
    from only_if [OF r] p obtain c where
      w: "field obj ''currency'' = JStr c" "\<forall>p \<in> set (fields_read ty). stringable (field obj p)"
      by auto
    from formatFailureEmail_well_formed [OF assms p w, of env] r show ?thesis
      by simp
  qed
  from A B C show ?thesis
    by blast
qed

text \<open>The theorem at the event of scenario A, which has neither failure code nor message.\<close>

theorem formatFailureEmail_total_witness:
  "\<exists>subject body.
     formatFailureEmail env0 evA = Inr (JStr subject, JStr body) \<and>
     sublist ''<p><strong>Failure Code:</strong> Unknown</p>'' body \<and>
     sublist ''<p><strong>Failure Message:</strong> No details provided</p>'' body"
proof -
  note t = formatFailureEmail_total_when_well_formed [OF evA_type(1) evA_type(3), of env0]
  have "\<forall>p \<in> set (fields_read (JStr ''charge.failed'')). stringable (field chargeA p)"
    using chargeA_stringable by (simp add: fields_read_def)
  with t evA_payload chargeA_fields(1)
  obtain subject body where
    r: "formatFailureEmail env0 evA = Inr (JStr subject, JStr body)"
    by blast
  from t evA_payload r chargeA_fields(4,5)
  have "sublist ''<p><strong>Failure Code:</strong> Unknown</p>'' body \<and>
     sublist ''<p><strong>Failure Message:</strong> No details provided</p>'' body"
    by blast
  with r show ?thesis
    by blast
qed

text \<open>
  Claim C3 as stated fails: on a charge without \<open>currency\<close> the call
  \<open>charge.currency.toUpperCase()\<close> of line 66 throws a \<open>TypeError\<close>.
\<close>

theorem formatFailureEmail_total_counterexample:
  "formatFailureEmail env0 ev_no_currency = Inl (ReadOfNullish JUndefined ''toUpperCase'')"
  by (simp add: formatFailureEmail_def ev_no_currency_def render_charge_def bind_result_def)

text \<open>
  Claim C5. For a \<open>charge.failed\<close> event whose payload has an integer \<open>amount\<close>, an
  ASCII string as \<open>currency\<close> and convertible properties, the subject is the alert text, a
  dollar sign, the amount, a blank and the currency with each small letter replaced by its
  capital. The amount is a sign for a negative amount, a non-empty run of digits, a point
  and exactly two digits, and the digits before the point times 100 plus the two after it
  are the amount in minor units. An absent \<open>customer\<close> shows as \<open>Guest\<close>. For 2599 and
  \<open>usd\<close> the subject contains \<open>$25.99 USD\<close>. The bound on the amount is the range in
  which the division and \<open>toFixed\<close> of the program, on doubles, agree with the integer
  arithmetic used here.
\<close>

theorem charge_subject_amount_and_currency:
  assumes "get_prop ev ''type'' = Inr (JStr ''charge.failed'')" and "payload ev = Inr obj"
    and "field obj ''amount'' = JNum a" and "field obj ''currency'' = JStr c"
    and "\<forall>p \<in> set charge_fields. stringable (field obj p)"
    and "\<bar>a\<bar> < 2 ^ 52" and "is_ascii c"
  shows "\<exists>subject body w f.
    formatFailureEmail env ev = Inr (JStr subject, JStr body) \<and>
    subject = emoji_card @ '' Payment Failure Alert - $'' @
      ((if a < 0 then ''-'' else []) @ w @ ''.'' @ f) @ '' '' @ map spec_uppercase c \<and>
    w \<noteq> [] \<and> length f = 2 \<and> set (w @ f) \<subseteq> set ''0123456789'' \<and>
    decimal_value w * 100 + decimal_value f = \<bar>a\<bar> \<and>
    (field obj ''customer'' = JUndefined \<longrightarrow>
       sublist ''<p><strong>Customer ID:</strong> Guest</p>'' body) \<and>
    (a = 2599 \<and> c = ''usd'' \<longrightarrow> sublist ''$25.99 USD'' subject)"
proof -
  note r = render_charge_event [OF assms(1,2,4,5), of env]
  obtain w f where
    e: "div100_toFixed2 (Finite a) = (if a < 0 then ''-'' else []) @ w @ ''.'' @ f"
    and p: "w \<noteq> []" "length f = 2" "set (w @ f) \<subseteq> set ''0123456789''"
      "decimal_value w * 100 + decimal_value f = \<bar>a\<bar>"
    using div100_toFixed2_shape [of a] by blast
  let ?subject = "charge_subject (div100_toFixed2 (Finite a)) (toUpperCase env c)"
  have s: "?subject = emoji_card @ '' Payment Failure Alert - $'' @
      ((if a < 0 then ''-'' else []) @ w @ ''.'' @ f) @ '' '' @ map spec_uppercase c"
    by (simp only: charge_subject_def e toUpperCase_ascii [OF assms(7)])
  have g: "field obj ''customer'' = JUndefined \<longrightarrow>
       sublist ''<p><strong>Customer ID:</strong> Guest</p>''
         (charge_body x y (text_of (js_or (field obj ''customer'') (JStr ''Guest''))) fc fm i t)"
    for x y fc fm i t
    by (simp add: text_of_default charge_body_defaults)
  have x: "a = 2599 \<and> c = ''usd'' \<longrightarrow> sublist ''$25.99 USD'' ?subject"
    using scenario_subject by (auto simp only: fixed_2599 upper_usd)
  from r s p g x show ?thesis
    unfolding assms(3) number_of_JNum by blast
qed

text \<open>
  The theorem at a charge of 2599 \<open>usd\<close> without a customer, and at a charge of 1050
  \<open>eur\<close>.
\<close>

theorem charge_subject_amount_and_currency_witness:
  "(\<exists>subject body.
      formatFailureEmail env0 evG = Inr (JStr subject, JStr body) \<and>
      sublist ''$25.99 USD'' subject \<and>
      sublist ''<p><strong>Customer ID:</strong> Guest</p>'' body) \<and>
   (\<exists>subject body w f.
      formatFailureEmail env0 evE = Inr (JStr subject, JStr body) \<and>
      subject = emoji_card @ '' Payment Failure Alert - $'' @ w @ ''.'' @ f @ '' EUR'' \<and>
      length f = 2 \<and> decimal_value w * 100 + decimal_value f = 1050)"
proof -
  have b: "\<bar>2599 :: int\<bar> < 2 ^ 52" "\<bar>1050 :: int\<bar> < 2 ^ 52"
    by simp_all
  have u: "is_ascii ''usd''"
    by (simp add: is_ascii_def)
  from charge_subject_amount_and_currency [OF evG_facts(1,2,3,4,6) b(1) u, of env0]
  obtain subject body where
    "formatFailureEmail env0 evG = Inr (JStr subject, JStr body)"
    "field chargeG ''customer'' = JUndefined \<longrightarrow>
       sublist ''<p><strong>Customer ID:</strong> Guest</p>'' body"
    "(2599::int) = 2599 \<and> ''usd'' = ''usd'' \<longrightarrow> sublist ''$25.99 USD'' subject"
    by blast
  with evG_facts(5) have g: "\<exists>subject body.
      formatFailureEmail env0 evG = Inr (JStr subject, JStr body) \<and>
      sublist ''$25.99 USD'' subject \<and>
      sublist ''<p><strong>Customer ID:</strong> Guest</p>'' body"
    by blast
  from charge_subject_amount_and_currency [OF evE_facts(1,2,3,4,5) b(2) evE_facts(6), of env0]
  obtain subject body w f where
    "formatFailureEmail env0 evE = Inr (JStr subject, JStr body)"
    "subject = emoji_card @ '' Payment Failure Alert - $'' @
      ((if (1050::int) < 0 then ''-'' else []) @ w @ ''.'' @ f) @ '' '' @
      map spec_uppercase ''eur''"
    "length f = 2" "decimal_value w * 100 + decimal_value f = \<bar>1050\<bar>"
    by blast
  moreover have "emoji_card @ '' Payment Failure Alert - $'' @
      ((if (1050::int) < 0 then ''-'' else []) @ w @ ''.'' @ f) @ '' '' @
      map spec_uppercase ''eur'' =
      emoji_card @ '' Payment Failure Alert - $'' @ w @ ''.'' @ f @ '' EUR''"
    by (simp add: spec_uppercase_def)
  moreover have "\<bar>1050 :: int\<bar> = 1050"
    by simp
  ultimately have e: "\<exists>subject body w f.
      formatFailureEmail env0 evE = Inr (JStr subject, JStr body) \<and>
      subject = emoji_card @ '' Payment Failure Alert - $'' @ w @ ''.'' @ f @ '' EUR'' \<and>
      length f = 2 \<and> decimal_value w * 100 + decimal_value f = 1050"
    by metis
  from g e show ?thesis
    by (rule conjI)
qed

text \<open>
  Claim C8, amended. For an \<open>invoice.payment_failed\<close> event whose payload has a string
  \<open>currency\<close> and convertible properties: when \<open>next_payment_attempt\<close> is absent, or is
  any falsy value (\<open>null\<close>, 0), the body says that no retry is scheduled; when it is a
  number other than 0, the body holds the locale's rendering of the date at that many
  seconds, times 1000, after the epoch.
\<close>

theorem invoice_next_attempt:
  assumes "get_prop ev ''type'' = Inr (JStr ''invoice.payment_failed'')"
    and "payload ev = Inr obj" and "field obj ''currency'' = JStr c"
    and "\<forall>p \<in> set invoice_fields. stringable (field obj p)"
  shows "\<exists>subject body.
    formatFailureEmail env ev = Inr (JStr subject, JStr body) \<and>
    (field obj ''next_payment_attempt'' = JUndefined \<longrightarrow>
       sublist ''<p><strong>Next Attempt:</strong> No retry scheduled</p>'' body) \<and>
    (\<not> to_boolean (field obj ''next_payment_attempt'') \<longrightarrow>
       sublist ''<p><strong>Next Attempt:</strong> No retry scheduled</p>'' body) \<and>
    (\<forall>n. field obj ''next_payment_attempt'' = JNum n \<and> n \<noteq> 0 \<longrightarrow>
       sublist (''<p><strong>Next Attempt:</strong> '' @
                date_toLocaleString env (Finite (n * 1000)) @ ''</p>'') body)"
proof -
  note r = render_invoice_event [OF assms, of env]
  have a: "\<not> to_boolean (field obj ''next_payment_attempt'') \<longrightarrow>
       sublist ''<p><strong>Next Attempt:</strong> No retry scheduled</p>''
         (invoice_body x y cu nu su ac
           (if to_boolean (field obj ''next_payment_attempt'')
            then date_toLocaleString env
                   (times1000 (number_of env (field obj ''next_payment_attempt'')))
            else ''No retry scheduled'') i)" for x y cu nu su ac i
    by (simp add: invoice_body_defaults)
  have b: "field obj ''next_payment_attempt'' = JNum n \<and> n \<noteq> 0 \<longrightarrow>
       sublist (''<p><strong>Next Attempt:</strong> '' @
                date_toLocaleString env (Finite (n * 1000)) @ ''</p>'')
         (invoice_body x y cu nu su ac
           (if to_boolean (field obj ''next_payment_attempt'')
            then date_toLocaleString env
                   (times1000 (number_of env (field obj ''next_payment_attempt'')))
            else ''No retry scheduled'') i)" for n x y cu nu su ac i
    using invoice_body_lines(3) by (simp add: number_of_JNum times1000_def)
  have u: "field obj ''next_payment_attempt'' = JUndefined \<longrightarrow>
      \<not> to_boolean (field obj ''next_payment_attempt'')"
    by simp
  from r a b u show ?thesis
    by blast
qed

text \<open>
  The theorem at an invoice whose next attempt is at 1700000000 seconds, and at an invoice
  without the property.
\<close>

theorem invoice_next_attempt_witness:
  "(\<exists>subject body.
      formatFailureEmail env0 (invoice_event invoiceA) = Inr (JStr subject, JStr body) \<and>
      sublist (''<p><strong>Next Attempt:</strong> '' @
               date_toLocaleString env0 (Finite (1700000000 * 1000)) @ ''</p>'') body) \<and>
   (\<exists>subject body.
      formatFailureEmail env0 (invoice_event invoice_bare) = Inr (JStr subject, JStr body) \<and>
      sublist ''<p><strong>Next Attempt:</strong> No retry scheduled</p>'' body)"
proof -
  from invoice_next_attempt [OF invoice_event_facts invoiceA_facts(1,3), of env0]
  obtain subject body where
    "formatFailureEmail env0 (invoice_event invoiceA) = Inr (JStr subject, JStr body)"
    "\<forall>n. field invoiceA ''next_payment_attempt'' = JNum n \<and> n \<noteq> 0 \<longrightarrow>
       sublist (''<p><strong>Next Attempt:</strong> '' @
                date_toLocaleString env0 (Finite (n * 1000)) @ ''</p>'') body"
    by blast
  with invoiceA_facts(2) have a: "\<exists>subject body.
      formatFailureEmail env0 (invoice_event invoiceA) = Inr (JStr subject, JStr body) \<and>
      sublist (''<p><strong>Next Attempt:</strong> '' @
               date_toLocaleString env0 (Finite (1700000000 * 1000)) @ ''</p>'') body"
    by fastforce
  from invoice_next_attempt [OF invoice_event_facts invoice_bare_facts(1,4), of env0]
  obtain subject body where
    "formatFailureEmail env0 (invoice_event invoice_bare) = Inr (JStr subject, JStr body)"
    "field invoice_bare ''next_payment_attempt'' = JUndefined \<longrightarrow>
       sublist ''<p><strong>Next Attempt:</strong> No retry scheduled</p>'' body"
    by blast
  with invoice_bare_facts(2) have b: "\<exists>subject body.
      formatFailureEmail env0 (invoice_event invoice_bare) = Inr (JStr subject, JStr body) \<and>
      sublist ''<p><strong>Next Attempt:</strong> No retry scheduled</p>'' body"
    by blast
  from a b show ?thesis
    by (rule conjI)
qed

text \<open>
  Claim C8 as stated fails: with \<open>next_payment_attempt\<close> present and equal to 0, a unix
  time, the test of line 95 takes the other branch and the body says that no retry is
  scheduled.
\<close>

theorem invoice_next_attempt_counterexample:
  "field invoice_epoch ''next_payment_attempt'' = JNum 0 \<and>
   formatFailureEmail env0 (invoice_event invoice_epoch) =
     Inr (JStr (invoice_subject ''25.99'' ''USD''),
          JStr (invoice_body ''25.99'' ''USD'' ''cus_1'' ''Draft'' ''N/A'' ''1''
                  ''No retry scheduled'' ''in_1''))"
  using render_invoice_event [OF invoice_event_facts invoice_epoch_facts(1,9), of env0]
  by (simp add: invoice_epoch_facts number_of_JNum fixed_2599 upper_usd
      text_of_def js_or_def show_int_1)

text \<open>
  Claim C10. For an \<open>invoice.payment_failed\<close> event that renders, the link of the body is
  built from the text of \<open>data.object.id\<close>; when the payload has no \<open>id\<close> the body is
  still rendered and the path of the link ends in \<open>undefined\<close>.
\<close>

theorem invoice_link_from_id:
  assumes "get_prop ev ''type'' = Inr (JStr ''invoice.payment_failed'')"
    and "payload ev = Inr obj" and "field obj ''currency'' = JStr c"
    and "\<forall>p \<in> set invoice_fields. stringable (field obj p)"
  shows "\<exists>subject body.
    formatFailureEmail env ev = Inr (JStr subject, JStr body) \<and>
    sublist (''<a href='' @ dq @ ''https://dashboard.stripe.com/invoices/'' @
             text_of (field obj ''id'') @ dq @ ''>Open Invoice</a>'') body \<and>
    (field obj ''id'' = JUndefined \<longrightarrow>
       sublist (''<a href='' @ dq @ ''https://dashboard.stripe.com/invoices/undefined'' @ dq @
                ''>Open Invoice</a>'') body)"
proof -
  note r = render_invoice_event [OF assms, of env]
  have a: "sublist (''<a href='' @ dq @ ''https://dashboard.stripe.com/invoices/'' @
             text_of (field obj ''id'') @ dq @ ''>Open Invoice</a>'')
      (invoice_body x y cu nu su ac na (text_of (field obj ''id'')))" for x y cu nu su ac na
    by (rule invoice_body_link)
  have b: "field obj ''id'' = JUndefined \<longrightarrow>
       sublist (''<a href='' @ dq @ ''https://dashboard.stripe.com/invoices/undefined'' @ dq @
                ''>Open Invoice</a>'')
         (invoice_body x y cu nu su ac na (text_of (field obj ''id'')))" for x y cu nu su ac na
    using invoice_body_link [of "''undefined''" x y cu nu su ac na]
    by (simp add: text_of_default)
  from r a b show ?thesis
    by blast
qed

text \<open>The theorem at an invoice without \<open>id\<close>.\<close>

theorem invoice_link_from_id_witness:
  "\<exists>subject body.
     formatFailureEmail env0 (invoice_event invoice_bare) = Inr (JStr subject, JStr body) \<and>
     sublist (''<a href='' @ dq @ ''https://dashboard.stripe.com/invoices/undefined'' @ dq @
              ''>Open Invoice</a>'') body"
proof -
  from invoice_link_from_id [OF invoice_event_facts invoice_bare_facts(1,4), of env0]
  obtain subject body where
    "formatFailureEmail env0 (invoice_event invoice_bare) = Inr (JStr subject, JStr body)"
    "field invoice_bare ''id'' = JUndefined \<longrightarrow>
       sublist (''<a href='' @ dq @ ''https://dashboard.stripe.com/invoices/undefined'' @ dq @
                ''>Open Invoice</a>'') body"
    by blast
  with invoice_bare_facts(3) show ?thesis
    by blast
qed








subsection \<open>The branches of the handler\<close>

lemma sendEmail_resolved:
  assumes "gmail_send env (attempts st) (encode env (mail_text s b)) = None"
  shows "sendEmail env (JStr s) (JStr b) st =
    (Inr True, (addLog env ''Email sent successfully to blakeecom02@gmail.com'' st)
                 \<lparr>attempts := Suc (attempts st)\<rparr>)"
  using assms
  by (simp add: sendEmail_def join_elem_def bind_result_Inr addLog_attempts_update)

lemma sendEmail_rejected:
  assumes "gmail_send env (attempts st) (encode env (mail_text s b)) = Some d"
  shows "sendEmail env (JStr s) (JStr b) st =
    (Inl (Rejected d), (addLog env (''Failed to send email: '' @ d) st)
                          \<lparr>attempts := Suc (attempts st)\<rparr>)"
  using assms
  by (simp add: sendEmail_def join_elem_def bind_result_Inr addLog_attempts_update message_of_def)

lemma webhook_try_type_error:
  assumes "get_prop ev ''type'' = Inl e \<or> (\<exists>ty. get_prop ev ''type'' = Inr ty \<and> to_string ty = Inl e)"
  shows "webhook_try env ev st = (Inl e, st)"
  using assms by (auto simp add: webhook_try_def bind_result_Inr bind_result_Inl)

lemma handle_type_error:
  assumes "get_prop ev ''type'' = Inl e \<or> (\<exists>ty. get_prop ev ''type'' = Inr ty \<and> to_string ty = Inl e)"
  shows "handle env ev st =
    (error_response (message_of env e), appends env [''Webhook error: '' @ message_of env e] st)"
  using webhook_try_type_error [OF assms]
  by (simp add: handle_def appends_Cons appends_Nil)

lemma handle_ignored:
  assumes "get_prop ev ''type'' = Inr ty" "to_string ty = Inr t" "\<not> is_monitored ty"
  shows "handle env ev st =
    (ok_response, appends env [''Received webhook: '' @ t, ''Ignored webhook event: '' @ t] st)"
  using assms
  by (simp add: handle_def webhook_try_def bind_result_Inr appends_Cons appends_Nil)

lemma handle_render_failed:
  assumes "get_prop ev ''type'' = Inr ty" "to_string ty = Inr t" "is_monitored ty"
    and "formatFailureEmail env ev = Inl e"
  shows "handle env ev st =
    (error_response ''Failed to send notification'',
     appends env [''Received webhook: '' @ t,
                  ''Failed to send notification for '' @ t @ '': '' @ message_of env e] st)"
  using assms
  by (simp add: handle_def webhook_try_def notify_try_def bind_result_Inr appends_Cons appends_Nil)

lemma handle_sent:
  assumes "get_prop ev ''type'' = Inr ty" "to_string ty = Inr t" "is_monitored ty"
    and "formatFailureEmail env ev = Inr (JStr s, JStr b)"
    and "gmail_send env (attempts st) (encode env (mail_text s b)) = None"
  shows "handle env ev st =
    (ok_response,
     (appends env [''Received webhook: '' @ t,
                   ''Email sent successfully to blakeecom02@gmail.com'',
                   ''Payment failure notification sent for event: '' @ t] st)
       \<lparr>attempts := Suc (attempts st)\<rparr>)"
proof -
  let ?st1 = "addLog env (''Received webhook: '' @ t) st"
  have "gmail_send env (attempts ?st1) (encode env (mail_text s b)) = None"
    using assms(5) by (simp add: addLog_attempts)
  from sendEmail_resolved [OF this] assms(1-4) show ?thesis
    by (simp add: handle_def webhook_try_def notify_try_def bind_result_Inr appends_Cons
        appends_Nil addLog_attempts addLog_attempts_update)
qed

lemma handle_rejected:
  assumes "get_prop ev ''type'' = Inr ty" "to_string ty = Inr t" "is_monitored ty"
    and "formatFailureEmail env ev = Inr (JStr s, JStr b)"
    and "gmail_send env (attempts st) (encode env (mail_text s b)) = Some d"
  shows "handle env ev st =
    (error_response ''Failed to send notification'',
     (appends env [''Received webhook: '' @ t,
                   ''Failed to send email: '' @ d,
                   ''Failed to send notification for '' @ t @ '': '' @ d] st)
       \<lparr>attempts := Suc (attempts st)\<rparr>)"
proof -
  let ?st1 = "addLog env (''Received webhook: '' @ t) st"
  have "gmail_send env (attempts ?st1) (encode env (mail_text s b)) = Some d"
    using assms(5) by (simp add: addLog_attempts)
  from sendEmail_rejected [OF this] assms(1-4) show ?thesis
    by (simp add: handle_def webhook_try_def notify_try_def bind_result_Inr appends_Cons
        appends_Nil addLog_attempts addLog_attempts_update message_of_def)
qed

lemma handle_cases [case_names type_error ignored unrendered sent rejected]:
  fixes env :: env and ev :: js_value and st :: state
  obtains
    (type_error) e where
      "get_prop ev ''type'' = Inl e \<or>
       (\<exists>ty. get_prop ev ''type'' = Inr ty \<and> to_string ty = Inl e)"
  | (ignored) ty t where
      "get_prop ev ''type'' = Inr ty" "to_string ty = Inr t" "\<not> is_monitored ty"
  | (unrendered) ty t e where
      "get_prop ev ''type'' = Inr ty" "to_string ty = Inr t" "is_monitored ty"
      "formatFailureEmail env ev = Inl e"
  | (sent) ty t s b where
      "get_prop ev ''type'' = Inr ty" "to_string ty = Inr t" "is_monitored ty"
      "formatFailureEmail env ev = Inr (JStr s, JStr b)"
      "gmail_send env (attempts st) (encode env (mail_text s b)) = None"
  | (rejected) ty t s b d where
      "get_prop ev ''type'' = Inr ty" "to_string ty = Inr t" "is_monitored ty"
      "formatFailureEmail env ev = Inr (JStr s, JStr b)"
      "gmail_send env (attempts st) (encode env (mail_text s b)) = Some d"
proof (cases "get_prop ev ''type''")
  case (Inl e)
  then show ?thesis
    using type_error by blast
next
  case ty: (Inr ty)
  show ?thesis
  proof (cases "to_string ty")
    case (Inl e)
    with ty show ?thesis
      using type_error by blast
  next
    case t: (Inr t)
    show ?thesis
    proof (cases "is_monitored ty")
      case False
      with ty t show ?thesis
        using ignored by blast
    next
      case True
      show ?thesis
      proof (cases "formatFailureEmail env ev")
        case (Inl e)
        with ty t True show ?thesis
          using unrendered by blast
      next
        case (Inr r)
        obtain s' b' where r: "r = (s', b')"
          by (cases r)
        from formatFailureEmail_strings [OF ty True Inr [unfolded r]]
        obtain s b where sb: "formatFailureEmail env ev = Inr (JStr s, JStr b)"
          using Inr r by auto
        show ?thesis
        proof (cases "gmail_send env (attempts st) (encode env (mail_text s b))")
          case None
          with ty t True sb show ?thesis
            using sent by blast
        next
          case (Some d)
          with ty t True sb show ?thesis
            using rejected by blast
        qed
      qed
    qed
  qed
qed

lemma statuses: "status ok_response = 200" "status (error_response m) = 500"
  by (simp_all add: ok_response_def error_response_def)

lemma messages_handle_ignored:
  assumes "get_prop ev ''type'' = Inr ty" "to_string ty = Inr t" "\<not> is_monitored ty"
    and "length (logs st) \<le> 100"
  shows "messages (snd (handle env ev st)) =
    last_n 100 (messages st @ [''Received webhook: '' @ t, ''Ignored webhook event: '' @ t])"
  using handle_ignored [OF assms(1-3)] messages_appends [OF assms(4)] by simp

lemma messages_handle_render_failed:
  assumes "get_prop ev ''type'' = Inr ty" "to_string ty = Inr t" "is_monitored ty"
    and "formatFailureEmail env ev = Inl e" and "length (logs st) \<le> 100"
  shows "messages (snd (handle env ev st)) =
    last_n 100 (messages st @ [''Received webhook: '' @ t,
      ''Failed to send notification for '' @ t @ '': '' @ message_of env e])"
  using handle_render_failed [OF assms(1-4)] messages_appends [OF assms(5)] by simp

lemma messages_handle_sent:
  assumes "get_prop ev ''type'' = Inr ty" "to_string ty = Inr t" "is_monitored ty"
    and "formatFailureEmail env ev = Inr (JStr s, JStr b)"
    and "gmail_send env (attempts st) (encode env (mail_text s b)) = None"
    and "length (logs st) \<le> 100"
  shows "messages (snd (handle env ev st)) =
    last_n 100 (messages st @ [''Received webhook: '' @ t,
      ''Email sent successfully to blakeecom02@gmail.com'',
      ''Payment failure notification sent for event: '' @ t])"
  using handle_sent [OF assms(1-5)] messages_appends [OF assms(6)]
  by (simp add: messages_attempts_update)

lemma messages_handle_rejected:
  assumes "get_prop ev ''type'' = Inr ty" "to_string ty = Inr t" "is_monitored ty"
    and "formatFailureEmail env ev = Inr (JStr s, JStr b)"
    and "gmail_send env (attempts st) (encode env (mail_text s b)) = Some d"
    and "length (logs st) \<le> 100"
  shows "messages (snd (handle env ev st)) =
    last_n 100 (messages st @ [''Received webhook: '' @ t,
      ''Failed to send email: '' @ d,
      ''Failed to send notification for '' @ t @ '': '' @ d])"
  using handle_rejected [OF assms(1-5)] messages_appends [OF assms(6)]
  by (simp add: messages_attempts_update)

subsection \<open>Properties of the handler\<close>

text \<open>
  Claim C1, amended. For an event whose \<open>type\<close> can be read and converts to the text
  \<open>t\<close>, and a log within its capacity, \<open>handle\<close> appends \<open>Received webhook: t\<close>
  first and then the entries \<open>new\<close> of its branch; the log is the last 100 of the old
  entries followed by these. On the ignored branch \<open>new\<close> is the one entry
  \<open>Ignored webhook event: t\<close> (two entries in all) and the answer is the 200 response.
  When rendering throws, \<open>new\<close> is the one entry \<open>Failed to send notification for\<close>
  (two in all). When the mail is sent, \<open>new\<close> is the entry of \<open>sendEmail\<close> and the
  entry of the handler (three in all), and likewise when the Gmail call rejects.
\<close>

theorem handle_log_entries:
  assumes "get_prop ev ''type'' = Inr ty" and "to_string ty = Inr t"
    and "length (logs st) \<le> 100"
  shows "\<exists>new.
    messages (snd (handle env ev st)) =
      last_n 100 (messages st @ (''Received webhook: '' @ t) # new) \<and>
    logs_count (snd (handle env ev st)) = min 100 (logs_count st + 1 + length new) \<and>
    (length new = 1 \<or> length new = 2) \<and>
    (\<not> is_monitored ty \<longrightarrow>
       new = [''Ignored webhook event: '' @ t] \<and> fst (handle env ev st) = ok_response) \<and>
    (\<forall>e. is_monitored ty \<and> formatFailureEmail env ev = Inl e \<longrightarrow>
       new = [''Failed to send notification for '' @ t @ '': '' @ message_of env e]) \<and>
    (\<forall>s b. is_monitored ty \<and> formatFailureEmail env ev = Inr (JStr s, JStr b) \<longrightarrow>
       (gmail_send env (attempts st) (encode env (mail_text s b)) = None \<longrightarrow>
          new = [''Email sent successfully to blakeecom02@gmail.com'',
                 ''Payment failure notification sent for event: '' @ t]) \<and>
       (\<forall>d. gmail_send env (attempts st) (encode env (mail_text s b)) = Some d \<longrightarrow>
          new = [''Failed to send email: '' @ d,
                 ''Failed to send notification for '' @ t @ '': '' @ d]))"
proof -
  have count: "logs_count (snd (handle env ev st)) = min 100 (logs_count st + 1 + length new)"
    if "messages (snd (handle env ev st)) =
          last_n 100 (messages st @ (''Received webhook: '' @ t) # new)" for new
    using arg_cong [OF that, of length]
    by (simp add: logs_count_messages length_last_n)
  consider
      (ignored) "\<not> is_monitored ty"
    | (unrendered) e where "is_monitored ty" "formatFailureEmail env ev = Inl e"
    | (sent) s b where "is_monitored ty" "formatFailureEmail env ev = Inr (JStr s, JStr b)"
        "gmail_send env (attempts st) (encode env (mail_text s b)) = None"
    | (rejected) s b d where "is_monitored ty" "formatFailureEmail env ev = Inr (JStr s, JStr b)"
        "gmail_send env (attempts st) (encode env (mail_text s b)) = Some d"
  proof (cases "is_monitored ty")
    case False
    then show ?thesis by (rule ignored)
  next
    case True
    show ?thesis
    proof (cases "formatFailureEmail env ev")
      case (Inl e)
      with True show ?thesis by (rule unrendered)
    next
      case (Inr r)
      obtain s' b' where r: "r = (s', b')" by (cases r)
      from formatFailureEmail_strings [OF assms(1) True Inr [unfolded r]]
      obtain s b where sb: "formatFailureEmail env ev = Inr (JStr s, JStr b)"
        using Inr r by auto
      show ?thesis
      proof (cases "gmail_send env (attempts st) (encode env (mail_text s b))")
        case None
        with True sb show ?thesis by (rule sent)
      next
        case (Some d)
        with True sb show ?thesis by (rule rejected)
      qed
    qed
  qed
  then show ?thesis
  proof cases
    case ignored
    let ?new = "[''Ignored webhook event: '' @ t]"
    have m: "messages (snd (handle env ev st)) =
        last_n 100 (messages st @ (''Received webhook: '' @ t) # ?new)"
      using messages_handle_ignored [OF assms(1,2) ignored assms(3)] by simp
    have "fst (handle env ev st) = ok_response"
      using handle_ignored [OF assms(1,2) ignored] by simp
    with m count [OF m] ignored show ?thesis
      by (intro exI [of _ ?new]) simp
  next
    case unrendered
    let ?new = "[''Failed to send notification for '' @ t @ '': '' @ message_of env e]"
    have m: "messages (snd (handle env ev st)) =
        last_n 100 (messages st @ (''Received webhook: '' @ t) # ?new)"
      using messages_handle_render_failed [OF assms(1,2) unrendered assms(3)] by simp
    with count [OF m] unrendered show ?thesis
      by (intro exI [of _ ?new]) simp
  next
    case sent
    let ?new = "[''Email sent successfully to blakeecom02@gmail.com'',
                 ''Payment failure notification sent for event: '' @ t]"
    have m: "messages (snd (handle env ev st)) =
        last_n 100 (messages st @ (''Received webhook: '' @ t) # ?new)"
      using messages_handle_sent [OF assms(1,2) sent assms(3)] by simp
    with count [OF m] sent show ?thesis
      by (intro exI [of _ ?new]) simp
  next
    case rejected
    let ?new = "[''Failed to send email: '' @ d,
                 ''Failed to send notification for '' @ t @ '': '' @ d]"
    have m: "messages (snd (handle env ev st)) =
        last_n 100 (messages st @ (''Received webhook: '' @ t) # ?new)"
      using messages_handle_rejected [OF assms(1,2) rejected assms(3)] by simp
    with count [OF m] rejected show ?thesis
      by (intro exI [of _ ?new]) simp
  qed
qed

text \<open>The theorem at the event of type \<open>customer.created\<close> and the empty log.\<close>

theorem handle_log_entries_witness:
  "messages (snd (handle env0 ev_ignored empty_state)) =
     [''Received webhook: customer.created'', ''Ignored webhook event: customer.created''] \<and>
   logs_count (snd (handle env0 ev_ignored empty_state)) = 2 \<and>
   fst (handle env0 ev_ignored empty_state) = ok_response"
proof -
  from handle_log_entries [OF ev_ignored_type(1,2) empty_state_facts(1), of env0]
  obtain new where
    m: "messages (snd (handle env0 ev_ignored empty_state)) =
          last_n 100 (messages empty_state @ (''Received webhook: '' @ ''customer.created'') # new)"
    and i: "\<not> is_monitored (JStr ''customer.created'') \<longrightarrow>
          new = [''Ignored webhook event: '' @ ''customer.created''] \<and>
          fst (handle env0 ev_ignored empty_state) = ok_response"
    by blast
  from i ev_ignored_type(3)
  have n: "new = [''Ignored webhook event: '' @ ''customer.created'']"
    and f: "fst (handle env0 ev_ignored empty_state) = ok_response"
    by simp_all
  have "messages (snd (handle env0 ev_ignored empty_state)) =
     [''Received webhook: customer.created'', ''Ignored webhook event: customer.created'']"
    using m unfolding n by (simp add: empty_state_facts last_n_def)
  with f show ?thesis
    by (simp add: logs_count_messages)
qed

text \<open>
  Claim C1 as stated fails: the ignored event leaves two entries, not one, and the
  event of scenario A, sent successfully, leaves three, not two.
\<close>

theorem handle_log_entries_counterexample:
  "messages (snd (handle env0 ev_ignored empty_state)) =
     [''Received webhook: customer.created'', ''Ignored webhook event: customer.created''] \<and>
   messages (snd (handle env0 evA empty_state)) =
     [''Received webhook: charge.failed'',
      ''Email sent successfully to blakeecom02@gmail.com'',
      ''Payment failure notification sent for event: charge.failed'']"
proof -
  obtain s b where sb: "formatFailureEmail env0 evA = Inr (JStr s, JStr b)"
    using evA_renders by blast
  have g: "gmail_send env0 (attempts empty_state) (encode env0 (mail_text s b)) = None"
    by (simp add: env0_def)
  show ?thesis
    using messages_handle_ignored [OF ev_ignored_type empty_state_facts(1), of env0]
      messages_handle_sent [OF evA_type sb g empty_state_facts(1)]
    by (simp add: empty_state_facts last_n_def)
qed

text \<open>
  Claim C4. For an event whose type is neither of the two, \<open>formatFailureEmail\<close> throws
  nothing and returns the pair of an \<open>undefined\<close> subject and an \<open>undefined\<close> body. No
  event of the two types yields that pair, so the value is distinguished. The handler
  classifies such an event as ignored: it answers 200, logs the two entries of the ignored
  branch and makes no call of the Gmail API.
\<close>

theorem unmonitored_type_not_applicable:
  assumes "get_prop ev ''type'' = Inr ty" and "\<not> is_monitored ty"
  shows "formatFailureEmail env ev = Inr (JUndefined, JUndefined) \<and>
    (\<forall>ev' ty'. get_prop ev' ''type'' = Inr ty' \<and> is_monitored ty' \<longrightarrow>
       formatFailureEmail env ev' \<noteq> Inr (JUndefined, JUndefined)) \<and>
    (\<forall>t. to_string ty = Inr t \<longrightarrow>
       handle env ev st =
         (ok_response,
          appends env [''Received webhook: '' @ t, ''Ignored webhook event: '' @ t] st) \<and>
       attempts (snd (handle env ev st)) = attempts st)"
proof -
  from assms(1) obtain dat where d: "get_prop ev ''data'' = Inr dat"
    by (cases ev) auto
  have a: "formatFailureEmail env ev = Inr (JUndefined, JUndefined)"
    using assms(2) by (simp add: formatFailureEmail_dispatch [OF assms(1) d] is_monitored_def)
  have b: "formatFailureEmail env ev' \<noteq> Inr (JUndefined, JUndefined)"
    if "get_prop ev' ''type'' = Inr ty'" "is_monitored ty'" for ev' ty'
    using formatFailureEmail_strings [OF that, of env JUndefined JUndefined] by blast
  have c: "handle env ev st =
         (ok_response,
          appends env [''Received webhook: '' @ t, ''Ignored webhook event: '' @ t] st) \<and>
       attempts (snd (handle env ev st)) = attempts st"
    if "to_string ty = Inr t" for t
    using handle_ignored [OF assms(1) that assms(2), of env st] by (simp add: appends_attempts)
  from a b c show ?thesis
    by blast
qed

text \<open>The theorem at the event of type \<open>customer.created\<close>.\<close>

theorem unmonitored_type_not_applicable_witness:
  "formatFailureEmail env0 ev_ignored = Inr (JUndefined, JUndefined) \<and>
   fst (handle env0 ev_ignored empty_state) = ok_response \<and>
   attempts (snd (handle env0 ev_ignored empty_state)) = 0"
proof -
  note t = unmonitored_type_not_applicable [OF ev_ignored_type(1,3), of env0 empty_state]
  from t have a: "formatFailureEmail env0 ev_ignored = Inr (JUndefined, JUndefined)"
    by blast
  from t ev_ignored_type(2)
  have h: "handle env0 ev_ignored empty_state =
         (ok_response,
          appends env0 [''Received webhook: '' @ ''customer.created'',
                        ''Ignored webhook event: '' @ ''customer.created''] empty_state) \<and>
       attempts (snd (handle env0 ev_ignored empty_state)) = attempts empty_state"
    by blast
  from conjunct1 [OF h] have f: "fst (handle env0 ev_ignored empty_state) = ok_response"
    by (simp only: fst_conv)
  from conjunct2 [OF h] have n: "attempts (snd (handle env0 ev_ignored empty_state)) = 0"
    by (simp only: empty_state_facts)
  from a f n show ?thesis
    by blast
qed

lemma notify_try_rejected:
  assumes "formatFailureEmail env ev = Inr (JStr s, JStr b)"
    and "gmail_send env (attempts st) (encode env (mail_text s b)) = Some d"
  shows "notify_try env ev t st =
    (Inl (Rejected d),
     (addLog env (''Failed to send email: '' @ d) st)\<lparr>attempts := Suc (attempts st)\<rparr>)"
  by (simp add: notify_try_def assms(1) sendEmail_rejected [OF assms(2)])

text \<open>
  Claim C6. When the Gmail call rejects with the message \<open>d\<close> while a rendered
  \<open>charge.failed\<close> event is handled, the outcome of the notification step, run by the
  handler after its \<open>Received\<close> entry, is the failure that carries \<open>d\<close>: the rejection
  reaches the handler's \<open>catch\<close> with \<open>d\<close> as its message. The handler makes it the
  failure answer (status 500), the last entry of the log is
  \<open>Failed to send notification for charge.failed: d\<close>, and exactly one call of the Gmail
  API has been made: there is no retry.
\<close>

theorem delivery_failure_reported_once:
  assumes "get_prop ev ''type'' = Inr (JStr ''charge.failed'')"
    and "formatFailureEmail env ev = Inr (JStr s, JStr b)"
    and "gmail_send env (attempts st) (encode env (mail_text s b)) = Some d"
  shows "fst (notify_try env ev ''charge.failed''
              (addLog env ''Received webhook: charge.failed'' st)) = Inl (Rejected d) \<and>
    message_of env (Rejected d) = d \<and>
    status (fst (handle env ev st)) = 500 \<and>
    fst (handle env ev st) = error_response ''Failed to send notification'' \<and>
    logs (snd (handle env ev st)) \<noteq> [] \<and>
    message (last (logs (snd (handle env ev st)))) =
      ''Failed to send notification for charge.failed: '' @ d \<and>
    attempts (snd (handle env ev st)) = Suc (attempts st)"
proof -
  have t: "to_string (JStr ''charge.failed'') = Inr ''charge.failed''"
    "is_monitored (JStr ''charge.failed'')"
    by (simp_all add: is_monitored_def)
  have g: "gmail_send env (attempts (addLog env ''Received webhook: charge.failed'' st))
      (encode env (mail_text s b)) = Some d"
    using assms(3) by (simp add: addLog_attempts)
  have n: "fst (notify_try env ev ''charge.failed''
              (addLog env ''Received webhook: charge.failed'' st)) = Inl (Rejected d)"
    by (simp add: notify_try_rejected [OF assms(2) g])
  have m: "message_of env (Rejected d) = d"
    by (simp add: message_of_def)
  note h = handle_rejected [OF assms(1) t assms(2,3)]
  note l = last_logs_appends [of env
    "[''Received webhook: '' @ ''charge.failed'', ''Failed to send email: '' @ d]"
    "''Failed to send notification for '' @ ''charge.failed'' @ '': '' @ d" st]
  from l have r: "status (fst (handle env ev st)) = 500 \<and>
    fst (handle env ev st) = error_response ''Failed to send notification'' \<and>
    logs (snd (handle env ev st)) \<noteq> [] \<and>
    message (last (logs (snd (handle env ev st)))) =
      ''Failed to send notification for charge.failed: '' @ d \<and>
    attempts (snd (handle env ev st)) = Suc (attempts st)"
    by (simp add: h appends_attempts statuses)
  from n m r show ?thesis
    by blast
qed

text \<open>
  The theorem at the event of scenario A and a Gmail call that rejects with
  \<open>quota exceeded\<close>.
\<close>

theorem delivery_failure_reported_once_witness:
  "fst (notify_try (env_rejecting ''quota exceeded'') evA ''charge.failed''
          (addLog (env_rejecting ''quota exceeded'') ''Received webhook: charge.failed''
             empty_state)) = Inl (Rejected ''quota exceeded'') \<and>
   status (fst (handle (env_rejecting ''quota exceeded'') evA empty_state)) = 500 \<and>
   fst (handle (env_rejecting ''quota exceeded'') evA empty_state) =
     error_response ''Failed to send notification'' \<and>
   message (last (logs (snd (handle (env_rejecting ''quota exceeded'') evA empty_state)))) =
     ''Failed to send notification for charge.failed: quota exceeded'' \<and>
   attempts (snd (handle (env_rejecting ''quota exceeded'') evA empty_state)) = 1"
proof -
  obtain s b where
    sb: "formatFailureEmail (env_rejecting ''quota exceeded'') evA = Inr (JStr s, JStr b)"
    using evA_renders by blast
  have g: "gmail_send (env_rejecting ''quota exceeded'') (attempts empty_state)
      (encode (env_rejecting ''quota exceeded'') (mail_text s b)) = Some ''quota exceeded''"
    by (simp add: env_rejecting_def)
  show ?thesis
    using delivery_failure_reported_once [OF evA_type(1) sb g]
    by (simp add: empty_state_facts statuses)
qed

text \<open>
  Claim C7. The handler returns a response for every body, every environment and every
  state: 200 or 500, after at least one new log entry. Each exception is caught and
  reported: one raised before the event is classified (the type cannot be read or
  converted) by the outer \<open>catch\<close>, with the entry \<open>Webhook error\<close> and the message in
  the response; one raised by rendering, or the rejection of the Gmail call, by the inner
  \<open>catch\<close>, with the entry \<open>Failed to send notification for\<close> and the fixed text in the
  response. The answer is 200 exactly when nothing was raised.
\<close>

theorem handle_catches_every_failure:
  "(\<exists>resp st'. handle env ev st = (resp, st') \<and> (status resp = 200 \<or> status resp = 500) \<and>
      logs st' \<noteq> [] \<and> clock st < clock st') \<and>
   (\<forall>e. get_prop ev ''type'' = Inl e \<or>
        (\<exists>ty. get_prop ev ''type'' = Inr ty \<and> to_string ty = Inl e) \<longrightarrow>
      fst (handle env ev st) = error_response (message_of env e) \<and>
      message (last (logs (snd (handle env ev st)))) = ''Webhook error: '' @ message_of env e) \<and>
   (\<forall>ty t e. get_prop ev ''type'' = Inr ty \<and> to_string ty = Inr t \<and> is_monitored ty \<and>
        formatFailureEmail env ev = Inl e \<longrightarrow>
      fst (handle env ev st) = error_response ''Failed to send notification'' \<and>
      message (last (logs (snd (handle env ev st)))) =
        ''Failed to send notification for '' @ t @ '': '' @ message_of env e) \<and>
   (\<forall>ty t s b d. get_prop ev ''type'' = Inr ty \<and> to_string ty = Inr t \<and> is_monitored ty \<and>
        formatFailureEmail env ev = Inr (JStr s, JStr b) \<and>
        gmail_send env (attempts st) (encode env (mail_text s b)) = Some d \<longrightarrow>
      fst (handle env ev st) = error_response ''Failed to send notification'' \<and>
      message (last (logs (snd (handle env ev st)))) =
        ''Failed to send notification for '' @ t @ '': '' @ d) \<and>
   (status (fst (handle env ev st)) = 200 \<longleftrightarrow>
      (\<exists>ty t. get_prop ev ''type'' = Inr ty \<and> to_string ty = Inr t \<and>
         (\<not> is_monitored ty \<or>
          (\<exists>s b. formatFailureEmail env ev = Inr (JStr s, JStr b) \<and>
             gmail_send env (attempts st) (encode env (mail_text s b)) = None))))"
proof -
  have B: "fst (handle env ev st) = error_response (message_of env e) \<and>
      message (last (logs (snd (handle env ev st)))) = ''Webhook error: '' @ message_of env e"
    if "get_prop ev ''type'' = Inl e \<or>
        (\<exists>ty. get_prop ev ''type'' = Inr ty \<and> to_string ty = Inl e)" for e
    using last_logs_appends [of env "[]" "''Webhook error: '' @ message_of env e" st]
    by (simp add: handle_type_error [OF that])
  have C: "fst (handle env ev st) = error_response ''Failed to send notification'' \<and>
      message (last (logs (snd (handle env ev st)))) =
        ''Failed to send notification for '' @ t @ '': '' @ message_of env e"
    if "get_prop ev ''type'' = Inr ty" "to_string ty = Inr t" "is_monitored ty"
      "formatFailureEmail env ev = Inl e" for ty t e
    using last_logs_appends [of env "[''Received webhook: '' @ t]"
        "''Failed to send notification for '' @ t @ '': '' @ message_of env e" st]
    by (simp add: handle_render_failed [OF that])
  have D: "fst (handle env ev st) = error_response ''Failed to send notification'' \<and>
      message (last (logs (snd (handle env ev st)))) =
        ''Failed to send notification for '' @ t @ '': '' @ d"
    if "get_prop ev ''type'' = Inr ty" "to_string ty = Inr t" "is_monitored ty"
      "formatFailureEmail env ev = Inr (JStr s, JStr b)"
      "gmail_send env (attempts st) (encode env (mail_text s b)) = Some d" for ty t s b d
    using last_logs_appends [of env
        "[''Received webhook: '' @ t, ''Failed to send email: '' @ d]"
        "''Failed to send notification for '' @ t @ '': '' @ d" st]
    by (simp add: handle_rejected [OF that])
  have A: "\<exists>resp st'. handle env ev st = (resp, st') \<and> (status resp = 200 \<or> status resp = 500) \<and>
      logs st' \<noteq> [] \<and> clock st < clock st'"
  proof (cases rule: handle_cases [where ev = ev and env = env and st = st])
    case (type_error e)
    show ?thesis
      using last_logs_appends [of env "[]" "''Webhook error: '' @ message_of env e" st]
      by (simp add: handle_type_error [OF type_error] statuses appends_clock)
  next
    case (ignored ty t)
    show ?thesis
      using last_logs_appends [of env "[''Received webhook: '' @ t]"
          "''Ignored webhook event: '' @ t" st]
      by (simp add: handle_ignored [OF ignored] statuses appends_clock)
  next
    case (unrendered ty t e)
    show ?thesis
      using last_logs_appends [of env "[''Received webhook: '' @ t]"
        "''Failed to send notification for '' @ t @ '': '' @ message_of env e" st]
      by (simp add: handle_render_failed [OF unrendered] statuses appends_clock)
  next
    case (sent ty t s b)
    show ?thesis
      using last_logs_appends [of env
          "[''Received webhook: '' @ t, ''Email sent successfully to blakeecom02@gmail.com'']"
          "''Payment failure notification sent for event: '' @ t" st]
      by (simp add: handle_sent [OF sent] statuses appends_clock)
  next
    case (rejected ty t s b d)
    show ?thesis
      using last_logs_appends [of env
        "[''Received webhook: '' @ t, ''Failed to send email: '' @ d]"
        "''Failed to send notification for '' @ t @ '': '' @ d" st]
      by (simp add: handle_rejected [OF rejected] statuses appends_clock)
  qed
  have E: "status (fst (handle env ev st)) = 200 \<longleftrightarrow>
      (\<exists>ty t. get_prop ev ''type'' = Inr ty \<and> to_string ty = Inr t \<and>
         (\<not> is_monitored ty \<or>
          (\<exists>s b. formatFailureEmail env ev = Inr (JStr s, JStr b) \<and>
             gmail_send env (attempts st) (encode env (mail_text s b)) = None)))"
  proof (cases rule: handle_cases [where ev = ev and env = env and st = st])
    case (type_error e)
    then show ?thesis
      by (auto simp add: handle_type_error [OF type_error] statuses)
  next
    case (ignored ty t)
    then show ?thesis
      by (simp add: handle_ignored [OF ignored] statuses)
  next
    case (unrendered ty t e)
    then show ?thesis
      by (simp add: handle_render_failed [OF unrendered] statuses)
  next
    case (sent ty t s b)
    then show ?thesis
      by (simp add: handle_sent [OF sent] statuses)
  next
    case (rejected ty t s b d)
    then show ?thesis
      by (simp add: handle_rejected [OF rejected] statuses)
  qed
  from A B C D E show ?thesis
    by blast
qed

text \<open>
  The theorem at the body \<open>null\<close>, whose \<open>type\<close> cannot be read, and at the charge
  without currency, whose rendering throws.
\<close>

theorem handle_catches_every_failure_witness:
  "fst (handle env0 JNull empty_state) = error_response ''TypeError'' \<and>
   message (last (logs (snd (handle env0 JNull empty_state)))) = ''Webhook error: TypeError'' \<and>
   fst (handle env0 ev_no_currency empty_state) = error_response ''Failed to send notification'' \<and>
   message (last (logs (snd (handle env0 ev_no_currency empty_state)))) =
     ''Failed to send notification for charge.failed: TypeError''"
proof -
  have n: "get_prop JNull ''type'' = Inl (ReadOfNullish JNull ''type'')"
    by simp
  from handle_catches_every_failure [where env = env0 and ev = JNull and st = empty_state] n
  have a: "fst (handle env0 JNull empty_state) =
        error_response (message_of env0 (ReadOfNullish JNull ''type'')) \<and>
      message (last (logs (snd (handle env0 JNull empty_state)))) =
        ''Webhook error: '' @ message_of env0 (ReadOfNullish JNull ''type'')"
    by blast
  from handle_catches_every_failure
      [where env = env0 and ev = ev_no_currency and st = empty_state]
    ev_no_currency_throws(1) ev_no_currency_throws(2) [of env0] evA_type(2,3)
  have b: "fst (handle env0 ev_no_currency empty_state) =
        error_response ''Failed to send notification'' \<and>
      message (last (logs (snd (handle env0 ev_no_currency empty_state)))) =
        ''Failed to send notification for '' @ ''charge.failed'' @ '': '' @
          message_of env0 (ReadOfNullish JUndefined ''toUpperCase'')"
    by blast
  from a b show ?thesis
    by (simp add: env0_message)
qed

end
